theory Spec2Isabelle
  imports Complex_Main "HOL-Library.Word"
begin

unbundle bit_operations_syntax

section \<open>Host and engine data, as \<open>pgduckdb_planner.cpp\<close> uses it\<close>

text \<open>
  The planner bridge is C++ glue between two libraries. Everything it calls that is not
  defined in \<open>pgduckdb_planner.cpp\<close> is either a field of the record \<open>env\<close> below
  (the deparser, the host's planner and variable extraction, the engine's connection and
  prepare calls, the type mapper, the type catalog) or one of the small host utilities
  written out here from their documented behaviour (list primitives, node constructors,
  the GUC nesting API, \<open>elog\<close> below \<open>ERROR\<close>).

  Pointers to query trees are addresses into a heap, so that copying a tree and mutating
  the copy are visible as such.
\<close>

type_synonym Oid = "32 word"
type_synonym AttrNumber = "16 word"
type_synonym addr = nat

definition InvalidOid :: Oid where
  "InvalidOid = 0"

definition OidIsValid :: "Oid \<Rightarrow> bool" where
  "OidIsValid objectId = (objectId \<noteq> InvalidOid)"

text \<open>\<open>INDEX_VAR\<close> of the host's \<open>primnodes.h\<close> (the releases that have \<open>permInfos\<close>).\<close>

definition INDEX_VAR :: int where
  "INDEX_VAR = - 3"

text \<open>The flag bits of the host's \<open>optimizer.h\<close> for \<open>pull_var_clause\<close>.\<close>

definition PVC_INCLUDE_AGGREGATES :: "32 word" where
  "PVC_INCLUDE_AGGREGATES = 0x0001"

definition PVC_RECURSE_AGGREGATES :: "32 word" where
  "PVC_RECURSE_AGGREGATES = 0x0002"

definition PVC_INCLUDE_WINDOWFUNCS :: "32 word" where
  "PVC_INCLUDE_WINDOWFUNCS = 0x0004"

definition PVC_RECURSE_WINDOWFUNCS :: "32 word" where
  "PVC_RECURSE_WINDOWFUNCS = 0x0008"

definition PVC_INCLUDE_PLACEHOLDERS :: "32 word" where
  "PVC_INCLUDE_PLACEHOLDERS = 0x0010"

definition PVC_RECURSE_PLACEHOLDERS :: "32 word" where
  "PVC_RECURSE_PLACEHOLDERS = 0x0020"

text \<open>
  A \<open>Node *\<close>: the null pointer, a \<open>List\<close> (itself a node), or any other node, whose
  content \<open>'e\<close> the bridge never inspects. A \<open>List *\<close> is a HOL list, \<open>NIL\<close> the empty one;
  casting a \<open>List *\<close> to \<open>Node *\<close> gives the null pointer for \<open>NIL\<close>.
\<close>

datatype 'e Node = NullNode | ListNode "'e Node list" | ExprNode 'e

definition node_of_list :: "'e Node list \<Rightarrow> 'e Node" where
  "node_of_list l = (if l = [] then NullNode else ListNode l)"

definition list_concat :: "'a list \<Rightarrow> 'a list \<Rightarrow> 'a list" where
  "list_concat list1 list2 = list1 @ list2"

definition lappend :: "'a list \<Rightarrow> 'a \<Rightarrow> 'a list" where
  "lappend l datum = l @ [datum]"

definition list_make1 :: "'a \<Rightarrow> 'a list" where
  "list_make1 x1 = [x1]"

datatype CmdType = CMD_UNKNOWN | CMD_SELECT | CMD_UPDATE | CMD_INSERT | CMD_DELETE
  | CMD_MERGE | CMD_UTILITY | CMD_NOTHING

datatype CommandTag = CMDTAG_UNKNOWN | CMDTAG_SELECT | CMDTAG_INSERT | CMDTAG_UPDATE
  | CMDTAG_DELETE | CMDTAG_EXPLAIN | CMDTAG_OTHER nat

datatype elevel = DEBUG2 | WARNING

datatype SysCacheIdentifier = TYPEOID

datatype CustomScanMethods = duckdb_scan_scan_methods

text \<open>
  What leaves a function other than by \<open>return\<close>: a host \<open>ereport(ERROR)\<close> (a
  \<open>longjmp\<close> out of every frame of this file, none of which catches it), the engine's
  bounds-checked vector raising on an index out of range, and the use of a pointer that
  addresses no query tree.
\<close>

datatype error = ERROR string | InternalException | InvalidPointer

record 'e FromExpr =
  fromlist :: "'e Node list"
  quals :: "'e Node"

text \<open>
  The fields of the host's \<open>Query\<close> that this file reads. \<open>jointree\<close> is never null in a
  tree the host hands to a planner (only utility statements lack it, and they are not
  planned).
\<close>

record 'e Query =
  commandType :: CmdType
  queryId :: "64 word"
  canSetTag :: bool
  utilityStmt :: "'e Node"
  hasModifyingCTE :: bool
  rtable :: "'e Node list"
  jointree :: "'e FromExpr"
  targetList :: "'e Node list"
  returningList :: "'e Node list"
  stmt_location :: int
  stmt_len :: int

record ParamExternData =
  pvalue :: "64 word"
  isnull :: bool
  pflags :: "16 word"
  ptype :: Oid

type_synonym ParamListInfo = "ParamExternData list option"

record ('e, 'pi) PlannerGlobal =
  boundParams :: ParamListInfo
  subplans :: "'e Node list"
  subroots :: "'pi list"
  rewindPlanIDs :: "nat set"
  finalrtable :: "'e Node list"
  finalrteperminfos :: "'e Node list"
  finalrowmarks :: "'e Node list"
  resultRelations :: "int list"
  appendRelations :: "'e Node list"
  relationOids :: "Oid list"
  invalItems :: "'e Node list"
  paramExecTypes :: "Oid list"
  lastPHId :: "32 word"
  lastRowMarkId :: "32 word"
  lastPlanNodeId :: int
  transientPlan :: bool
  dependsOnRole :: bool

record Form_pg_type =
  typtypmod :: "32 word"
  typcollation :: Oid

record Var =
  varno :: int
  varattno :: AttrNumber
  vartype :: Oid
  vartypmod :: "32 word"
  varcollid :: Oid
  varlevelsup :: "32 word"

record TargetEntry =
  expr :: Var
  resno :: AttrNumber
  resname :: string
  resjunk :: bool

record CustomScan =
  custom_scan_tlist :: "TargetEntry list"
  custom_private :: "addr list"
  methods :: "CustomScanMethods option"

record 'e PlannedStmt =
  commandType :: CmdType
  queryId :: "64 word"
  hasReturning :: bool
  hasModifyingCTE :: bool
  canSetTag :: bool
  transientPlan :: bool
  dependsOnRole :: bool
  parallelModeNeeded :: bool
  planTree :: CustomScan
  rtable :: "'e Node list"
  permInfos :: "'e Node list"
  resultRelations :: "int list"
  appendRelations :: "'e Node list"
  subplans :: "'e Node list"
  rewindPlanIDs :: "nat set"
  rowMarks :: "'e Node list"
  relationOids :: "Oid list"
  invalItems :: "'e Node list"
  paramExecTypes :: "Oid list"
  utilityStmt :: "'e Node"
  stmt_location :: int
  stmt_len :: int

text \<open>
  The engine's prepared statement, as far as \<open>CreatePlan\<close> reads it: the error state
  and the two parallel vectors of result types and result names.
\<close>

record 'ty PreparedStatement =
  HasError :: bool
  GetError :: string
  GetTypes :: "'ty list"
  GetNames :: "string list"

record Portal =
  commandTag :: CommandTag


section \<open>Host utilities\<close>

subsection \<open>Node constructors (\<open>makefuncs.c\<close>)\<close>

definition makeVar :: "int \<Rightarrow> AttrNumber \<Rightarrow> Oid \<Rightarrow> 32 word \<Rightarrow> Oid \<Rightarrow> 32 word \<Rightarrow> Var" where
  "makeVar varno' varattno' vartype' vartypmod' varcollid' varlevelsup' =
     \<lparr>varno = varno', varattno = varattno', vartype = vartype', vartypmod = vartypmod',
      varcollid = varcollid', varlevelsup = varlevelsup'\<rparr>"

definition makeTargetEntry :: "Var \<Rightarrow> AttrNumber \<Rightarrow> string \<Rightarrow> bool \<Rightarrow> TargetEntry" where
  "makeTargetEntry expr' resno' resname' resjunk' =
     \<lparr>expr = expr', resno = resno', resname = resname', resjunk = resjunk'\<rparr>"

text \<open>\<open>makeNode(CustomScan)\<close>: a zeroed node.\<close>

definition makeNode_CustomScan :: CustomScan where
  "makeNode_CustomScan = \<lparr>custom_scan_tlist = [], custom_private = [], methods = None\<rparr>"

subsection \<open>C strings\<close>

text \<open>
  \<open>std::string::c_str\<close> read as a C string: the bytes before the first NUL byte.
  \<open>pstrdup\<close> copies a C string as it is.
\<close>

definition c_str :: "string \<Rightarrow> string" where
  "c_str str = takeWhile (\<lambda>c. c \<noteq> CHR 0x00) str"

definition pstrdup :: "string \<Rightarrow> string" where
  "pstrdup str = str"

subsection \<open>Formatting and logging\<close>

text \<open>The \<open>%u\<close> conversion: an unsigned 32-bit value in decimal.\<close>

fun string_of_nat :: "nat \<Rightarrow> string" where
  "string_of_nat n =
     (if n < 10 then [''0123456789'' ! n]
      else string_of_nat (n div 10) @ [''0123456789'' ! (n mod 10)])"

definition format_u :: "32 word \<Rightarrow> string" where
  "format_u w = string_of_nat (unat w)"

subsection \<open>The GUC nesting API (\<open>guc.c\<close>)\<close>

text \<open>
  Each setting has a current value and a stack of saved prior values, each tagged with
  the nesting level at which it was saved (the head of the list is the top of the stack).
  \<open>NewGUCNestLevel\<close> opens a level. \<open>SetConfigOption\<close> saves the prior value once per
  level (nothing is saved outside every level) and stores the new one; at
  \<open>PGC_USERSET\<close> context with \<open>PGC_S_SESSION\<close> source, the highest-priority source,
  the store always takes effect. \<open>AtEOXact_GUC(false, n)\<close> rolls back every level from
  \<open>n\<close> upwards; only this rollback form occurs in the file.
\<close>

datatype GucContext = PGC_USERSET

datatype GucSource = PGC_S_SESSION

record guc_state =
  GUCNestLevel :: int
  guc_value :: "string \<Rightarrow> string"
  guc_stack :: "string \<Rightarrow> (int \<times> string) list"

definition NewGUCNestLevel :: "guc_state \<Rightarrow> int \<times> guc_state" where
  "NewGUCNestLevel g = (GUCNestLevel g + 1, g\<lparr>GUCNestLevel := GUCNestLevel g + 1\<rparr>)"

definition push_old_value :: "string \<Rightarrow> guc_state \<Rightarrow> guc_state" where
  "push_old_value name g =
     (if GUCNestLevel g = 0 then g
      else (case guc_stack g name of
              (lvl, prior) # rest \<Rightarrow>
                if lvl \<ge> GUCNestLevel g then g
                else g\<lparr>guc_stack := (guc_stack g)
                        (name := (GUCNestLevel g, guc_value g name) # guc_stack g name)\<rparr>
            | [] \<Rightarrow> g\<lparr>guc_stack := (guc_stack g)(name := [(GUCNestLevel g, guc_value g name)])\<rparr>))"

definition SetConfigOption :: "string \<Rightarrow> string \<Rightarrow> GucContext \<Rightarrow> GucSource \<Rightarrow> guc_state \<Rightarrow> guc_state" where
  "SetConfigOption name val context source g =
     (let g' = push_old_value name g in g'\<lparr>guc_value := (guc_value g')(name := val)\<rparr>)"

fun guc_rollback :: "int \<Rightarrow> string \<Rightarrow> (int \<times> string) list \<Rightarrow> string \<times> (int \<times> string) list" where
  "guc_rollback nestLevel cur [] = (cur, [])"
| "guc_rollback nestLevel cur ((lvl, prior) # rest) =
     (if lvl \<ge> nestLevel then guc_rollback nestLevel prior rest
      else (cur, (lvl, prior) # rest))"

definition AtEOXact_GUC_false :: "int \<Rightarrow> guc_state \<Rightarrow> guc_state" where
  "AtEOXact_GUC_false nestLevel g =
     g\<lparr>guc_value := (\<lambda>name. fst (guc_rollback nestLevel (guc_value g name) (guc_stack g name))),
       guc_stack := (\<lambda>name. snd (guc_rollback nestLevel (guc_value g name) (guc_stack g name))),
       GUCNestLevel := nestLevel - 1\<rparr>"

text \<open>
  The host never lets the nesting level go negative, and keeps every saved entry at or
  below the current level.
\<close>

definition guc_wf :: "guc_state \<Rightarrow> bool" where
  "guc_wf g = (0 \<le> GUCNestLevel g
                \<and> (\<forall>name. list_all (\<lambda>e. fst e \<le> GUCNestLevel g) (guc_stack g name)))"

section \<open>Process state and external collaborators\<close>

text \<open>
  Trees in the heap are values, lists included. One \<open>List *\<close> is held across a call
  that rewrites the tree it was taken from (\<open>rtables\<close> in \<open>DuckdbPrepare\<close>), so the
  List object behind it has a place of its own in the state: \<open>rtable_object s a\<close> is
  the List that the \<open>rtable\<close> field of the tree at address \<open>a\<close> pointed to when the tree
  was allocated or, after that, when it was last handed to the planner, with the contents
  that object has now. The tree may point to another List by then.
\<close>

record 'e state =
  heap :: "'e Query list"
  rtable_object :: "addr \<Rightarrow> 'e Node list"
  guc :: guc_state
  ActivePortal :: "Portal option"
  duckdb_explain_analyze :: bool
  server_log :: "(elevel \<times> string) list"

text \<open>\<open>elog\<close> at a level below \<open>ERROR\<close> emits the message and returns.\<close>

definition elog :: "elevel \<Rightarrow> string \<Rightarrow> 'e state \<Rightarrow> 'e state" where
  "elog lev msg s = s\<lparr>server_log := server_log s @ [(lev, msg)]\<rparr>"

text \<open>
  \<open>copyObjectImpl\<close>: a fresh tree, equal to the one copied and sharing nothing with it;
  its range table is a fresh List object with the same contents.
\<close>

definition copyObjectImpl :: "addr \<Rightarrow> 'e state \<Rightarrow> 'e state \<times> (error + addr)" where
  "copyObjectImpl from s =
     (if from < length (heap s)
      then (s\<lparr>heap := heap s @ [heap s ! from],
              rtable_object := (rtable_object s)(length (heap s) := Query.rtable (heap s ! from))\<rparr>,
            Inr (length (heap s)))
      else (s, Inl InvalidPointer))"

text \<open>
  A \<open>List *\<close> that is either \<open>NIL\<close>, the null pointer, or the range-table List of the
  tree at an address, and what reading it gives.
\<close>

datatype list_ptr = NIL | RangeTable addr

definition rtable_ptr :: "'e state \<Rightarrow> addr \<Rightarrow> list_ptr" where
  "rtable_ptr s a = (if Query.rtable (heap s ! a) = [] then NIL else RangeTable a)"

definition list_contents :: "'e state \<Rightarrow> list_ptr \<Rightarrow> 'e Node list" where
  "list_contents s p = (case p of NIL \<Rightarrow> [] | RangeTable a \<Rightarrow> rtable_object s a)"

text \<open>
  The calls into code outside the file. The deparser \<open>pgduckdb_pg_get_querydef\<close> takes
  the tree, the \<open>pretty\<close> flag and the \<open>search_path\<close> in force when it runs, and either
  raises or returns the text. \<open>subquery_planner\<close> rewrites the tree it is given in place:
  it returns the tree as it leaves it, the contents it leaves in the List that the tree's
  \<open>rtable\<close> pointed to on entry (extended in place, left alone, or detached from the
  tree), and the planner context. The others return values and touch nothing this file
  can observe.
\<close>

record ('e, 'ty, 'conn, 'pi) env =
  pgduckdb_pg_get_querydef :: "'e Query \<Rightarrow> bool \<Rightarrow> string \<Rightarrow> error + string"
  pull_var_clause :: "'e Node \<Rightarrow> 32 word \<Rightarrow> 'e Node list"
  subquery_planner :: "('e, 'pi) PlannerGlobal \<Rightarrow> 'e Query \<Rightarrow> 'pi option \<Rightarrow> bool \<Rightarrow> real
                         \<Rightarrow> 'e Query \<times> 'e Node list \<times> 'pi"
  DuckdbCreateConnection :: "'e Node list \<Rightarrow> 'pi \<Rightarrow> 'e Node list \<Rightarrow> string \<Rightarrow> 'conn"
  Prepare :: "'conn \<Rightarrow> string \<Rightarrow> 'ty PreparedStatement"
  GetPostgresDuckDBType :: "'ty \<Rightarrow> Oid"
  SearchSysCache1 :: "SysCacheIdentifier \<Rightarrow> Oid \<Rightarrow> Form_pg_type option"

section \<open>The functions of \<open>pgduckdb_planner.cpp\<close>\<close>

text \<open>
  \<open>PlanQuery\<close>: the \<open>PlannerGlobal\<close> it fills in (every field it does not assign is
  zero, from \<open>makeNode\<close>), then the call of \<open>subquery_planner\<close> with no parent root, no
  recursion and tuple fraction 0, on the tree \<open>parse\<close> points to.
\<close>

definition PlanQuery_glob :: "ParamListInfo \<Rightarrow> ('e, 'pi) PlannerGlobal" where
  "PlanQuery_glob bound_params =
     \<lparr>boundParams = bound_params,
      PlannerGlobal.subplans = [],
      subroots = [],
      PlannerGlobal.rewindPlanIDs = {},
      finalrtable = [],
      finalrteperminfos = [],
      finalrowmarks = [],
      PlannerGlobal.resultRelations = [],
      PlannerGlobal.appendRelations = [],
      PlannerGlobal.relationOids = [],
      PlannerGlobal.invalItems = [],
      PlannerGlobal.paramExecTypes = [],
      lastPHId = 0,
      lastRowMarkId = 0,
      lastPlanNodeId = 0,
      PlannerGlobal.transientPlan = False,
      PlannerGlobal.dependsOnRole = False\<rparr>"

definition PlanQuery ::
  "('e, 'ty, 'conn, 'pi) env \<Rightarrow> addr \<Rightarrow> ParamListInfo \<Rightarrow> 'e state \<Rightarrow> 'e state \<times> (error + 'pi)" where
  "PlanQuery env parse bound_params s =
     (if parse < length (heap s)
      then (let glob = PlanQuery_glob bound_params;
                planned = subquery_planner env glob (heap s ! parse) None False 0
            in (s\<lparr>heap := (heap s)[parse := fst planned],
                   rtable_object := (rtable_object s)(parse := fst (snd planned))\<rparr>,
                Inr (snd (snd planned))))
      else (s, Inl InvalidPointer))"

text \<open>
  The \<open>if (ActivePortal && ActivePortal->commandTag == CMDTAG_EXPLAIN)\<close> block of
  \<open>DuckdbPrepare\<close>: the text with the prefix it gets.
\<close>

definition explain_wrap :: "'e state \<Rightarrow> string \<Rightarrow> string" where
  "explain_wrap s query_string =
     (case ActivePortal s of
        None \<Rightarrow> query_string
      | Some portal \<Rightarrow>
          if commandTag portal = CMDTAG_EXPLAIN
          then (if duckdb_explain_analyze s then ''EXPLAIN ANALYZE '' @ query_string
                else ''EXPLAIN '' @ query_string)
          else query_string)"

text \<open>
  \<open>DuckdbPrepare\<close>. A raise by the deparser leaves the function at the point of the
  call, with the state as it is there; nothing after that point runs. The pointer
  \<open>rtables\<close> is taken from the copy before \<open>PlanQuery\<close> and read when the connection is
  opened, after it: the adapter gets the List as the planner left it.
\<close>

definition DuckdbPrepare ::
  "('e, 'ty, 'conn, 'pi) env \<Rightarrow> addr \<Rightarrow> ParamListInfo \<Rightarrow> 'e state
     \<Rightarrow> 'e state \<times> (error + 'ty PreparedStatement \<times> 'conn)" where
  "DuckdbPrepare env query bound_params s =
     (case copyObjectImpl query s of
        (s1, Inl e) \<Rightarrow> (s1, Inl e)
      | (s1, Inr copied_query) \<Rightarrow>
          let nest = NewGUCNestLevel (guc s1);
              save_nestlevel = fst nest;
              s2 = s1\<lparr>guc := SetConfigOption ''search_path'' [] PGC_USERSET PGC_S_SESSION (snd nest)\<rparr>
          in (case pgduckdb_pg_get_querydef env (heap s2 ! copied_query) False
                     (guc_value (guc s2) ''search_path'') of
                Inl e \<Rightarrow> (s2, Inl e)
              | Inr deparsed \<Rightarrow>
                  let s3 = s2\<lparr>guc := AtEOXact_GUC_false save_nestlevel (guc s2)\<rparr>;
                      query_string = explain_wrap s3 deparsed;
                      s4 = elog DEBUG2 (''(PGDuckDB/DuckdbPrepare) Preparing: '' @ query_string) s3;
                      rtables = rtable_ptr s4 copied_query;
                      flags = PVC_RECURSE_AGGREGATES OR PVC_RECURSE_WINDOWFUNCS
                                OR PVC_RECURSE_PLACEHOLDERS;
                      vars = list_concat
                               (pull_var_clause env
                                  (node_of_list (targetList (heap s4 ! copied_query))) flags)
                               (pull_var_clause env
                                  (quals (jointree (heap s4 ! copied_query))) flags)
                  in (case PlanQuery env copied_query bound_params s4 of
                        (s5, Inl e) \<Rightarrow> (s5, Inl e)
                      | (s5, Inr query_planner_info) \<Rightarrow>
                          let duckdb_connection =
                                DuckdbCreateConnection env (list_contents s5 rtables)
                                  query_planner_info vars query_string;
                              prepared_query = Prepare env duckdb_connection query_string
                          in (s5, Inr (prepared_query, duckdb_connection)))))"

text \<open>
  The loop of \<open>CreatePlan\<close> over the result columns, from index \<open>i\<close> on. It returns the
  node with its target list extended, or null after a warning at the first column whose
  type has no host counterpart. The name of an entry is the C string of the column name.
\<close>

function CreatePlan_loop ::
  "('e, 'ty, 'conn, 'pi) env \<Rightarrow> 'ty PreparedStatement \<Rightarrow> nat \<Rightarrow> CustomScan \<Rightarrow> 'e state
     \<Rightarrow> 'e state \<times> (error + CustomScan option)" where
  "CreatePlan_loop env prepared_query i duckdb_node s =
     (if i < length (GetTypes prepared_query) then
        (let column = GetTypes prepared_query ! i;
             postgresColumnOid = GetPostgresDuckDBType env column
         in if \<not> OidIsValid postgresColumnOid then
              (elog WARNING (''(PGDuckDB/CreatePlan) Cache lookup failed for type ''
                               @ format_u postgresColumnOid) s, Inr None)
            else (case SearchSysCache1 env TYPEOID postgresColumnOid of
                    None \<Rightarrow>
                      (elog WARNING (''(PGDuckDB/CreatePlan) Cache lookup failed for type ''
                                       @ format_u postgresColumnOid) s, Inr None)
                  | Some typtup \<Rightarrow>
                      let var = makeVar INDEX_VAR (of_nat (i + 1)) postgresColumnOid
                                  (typtypmod typtup) (typcollation typtup) 0
                      in if i < length (GetNames prepared_query) then
                           CreatePlan_loop env prepared_query (i + 1)
                             (duckdb_node\<lparr>custom_scan_tlist :=
                                lappend (custom_scan_tlist duckdb_node)
                                  (makeTargetEntry var (of_nat (i + 1))
                                     (pstrdup (c_str (GetNames prepared_query ! i))) False)\<rparr>) s
                         else (s, Inl InternalException)))
      else (s, Inr (Some duckdb_node)))"
  by pat_completeness auto
termination
  by (relation "measure (\<lambda>(env, prepared_query, i, duckdb_node, s).
        length (GetTypes prepared_query) - i)") auto

text \<open>
  \<open>CreatePlan\<close>: the error check on the prepared statement, the loop, and the payload
  and methods of the finished node. The connection returned by \<open>DuckdbPrepare\<close> is not
  used. \<open>SearchSysCache1\<close> and \<open>ReleaseSysCache\<close> pair up on every path, so the cache's
  reference counts are left out. The engine's error text is taken to hold no NUL byte,
  so \<open>GetError().c_str()\<close> is the text itself.
\<close>

definition CreatePlan ::
  "('e, 'ty, 'conn, 'pi) env \<Rightarrow> addr \<Rightarrow> ParamListInfo \<Rightarrow> 'e state
     \<Rightarrow> 'e state \<times> (error + CustomScan option)" where
  "CreatePlan env query bound_params s =
     (case DuckdbPrepare env query bound_params s of
        (s1, Inl e) \<Rightarrow> (s1, Inl e)
      | (s1, Inr (prepared_query, duckdb_connection)) \<Rightarrow>
          if HasError prepared_query then
            (elog WARNING (''(PGDuckDB/CreatePlan) Prepared query returned an error: ''
                             @ [CHR 0x27] @ GetError prepared_query) s1, Inr None)
          else (case CreatePlan_loop env prepared_query 0 makeNode_CustomScan s1 of
                  (s2, Inl e) \<Rightarrow> (s2, Inl e)
                | (s2, Inr None) \<Rightarrow> (s2, Inr None)
                | (s2, Inr (Some duckdb_node)) \<Rightarrow>
                    (s2, Inr (Some (duckdb_node\<lparr>custom_private := list_make1 query,
                                               methods := Some duckdb_scan_scan_methods\<rparr>)))))"

text \<open>
  \<open>DuckdbPlanNode\<close>: null when \<open>CreatePlan\<close> gives null, otherwise the planned
  statement, its fields read through the caller's pointer after the planning attempt.
\<close>

definition DuckdbPlanNode ::
  "('e, 'ty, 'conn, 'pi) env \<Rightarrow> addr \<Rightarrow> int \<Rightarrow> ParamListInfo \<Rightarrow> 'e state
     \<Rightarrow> 'e state \<times> (error + 'e PlannedStmt option)" where
  "DuckdbPlanNode env parse cursor_options bound_params s =
     (case CreatePlan env parse bound_params s of
        (s1, Inl e) \<Rightarrow> (s1, Inl e)
      | (s1, Inr None) \<Rightarrow> (s1, Inr None)
      | (s1, Inr (Some duckdb_plan)) \<Rightarrow>
          if parse < length (heap s1) then
            (s1, Inr (Some
               \<lparr>commandType = Query.commandType (heap s1 ! parse),
                queryId = Query.queryId (heap s1 ! parse),
                hasReturning = (returningList (heap s1 ! parse) \<noteq> []),
                hasModifyingCTE = Query.hasModifyingCTE (heap s1 ! parse),
                canSetTag = Query.canSetTag (heap s1 ! parse),
                transientPlan = False,
                dependsOnRole = False,
                parallelModeNeeded = False,
                planTree = duckdb_plan,
                rtable = [],
                permInfos = [],
                resultRelations = [],
                appendRelations = [],
                subplans = [],
                rewindPlanIDs = {},
                rowMarks = [],
                relationOids = [],
                invalItems = [],
                paramExecTypes = [],
                utilityStmt = Query.utilityStmt (heap s1 ! parse),
                stmt_location = Query.stmt_location (heap s1 ! parse),
                stmt_len = Query.stmt_len (heap s1 ! parse)\<rparr>))
          else (s1, Inl InvalidPointer))"

section \<open>Vocabulary of the properties\<close>

text \<open>
  A result type passes both checks of the loop in \<open>CreatePlan\<close>: the type mapper gives
  a valid host type identifier, and the host catalog has an entry for it.
\<close>

definition type_mapped :: "('e, 'ty, 'conn, 'pi) env \<Rightarrow> 'ty \<Rightarrow> bool" where
  "type_mapped env column =
     (OidIsValid (GetPostgresDuckDBType env column)
      \<and> SearchSysCache1 env TYPEOID (GetPostgresDuckDBType env column) \<noteq> None)"

text \<open>The tree a valid pointer addresses.\<close>

definition deref :: "'e state \<Rightarrow> addr \<Rightarrow> 'e Query option" where
  "deref s p = (if p < length (heap s) then Some (heap s ! p) else None)"

subsection \<open>A small host and engine to run the functions on\<close>

text \<open>
  The tree of \<open>SELECT a, b FROM t WHERE ...\<close>, with numbered expression nodes. The
  deparser of \<open>demo_env\<close> qualifies the table when the search path is empty and raises
  on a command type it does not know; its planner empties the target list of the tree
  it is given; its connection records the four arguments it was opened with; its engine
  reports the columns \<open>a INTEGER, b VARCHAR\<close>; its type mapper knows \<open>INTEGER\<close> (23),
  \<open>VARCHAR\<close> (25) and \<open>HUGEINT\<close> (1700), and its catalog has entries for 23 and 25 only.
  The variants: an engine that rejects the text, an engine whose second column is a
  \<open>HUGEINT\<close>, engines whose only column is a \<open>UNION\<close> or a \<open>MAP\<close>, a planner that
  appends to the range table in place, a tree the deparser raises on, and a session
  inside an explain request.
\<close>

definition demo_query :: "nat Query" where
  "demo_query =
     \<lparr>Query.commandType = CMD_SELECT,
      Query.queryId = 42,
      Query.canSetTag = True,
      Query.utilityStmt = NullNode,
      Query.hasModifyingCTE = False,
      Query.rtable = [ExprNode 100],
      jointree = \<lparr>fromlist = [ExprNode 100], quals = ExprNode 3\<rparr>,
      targetList = [ExprNode 1, ExprNode 2],
      returningList = [],
      Query.stmt_location = 0,
      Query.stmt_len = 27\<rparr>"

definition demo_columns :: "string PreparedStatement" where
  "demo_columns =
     \<lparr>HasError = False, GetError = [],
      GetTypes = [''INTEGER'', ''VARCHAR''], GetNames = [''a'', ''b'']\<rparr>"

definition demo_env ::
  "(nat, string, nat Node list \<times> nat \<times> nat Node list \<times> string, nat) env" where
  "demo_env =
     \<lparr>pgduckdb_pg_get_querydef =
        (\<lambda>q pretty path.
           if Query.commandType q = CMD_NOTHING
           then Inl (ERROR ''unrecognized query command type'')
           else if path = [] then Inr ''SELECT a, b FROM public.t''
           else Inr ''SELECT a, b FROM t''),
      pull_var_clause =
        (\<lambda>node flags. case node of NullNode \<Rightarrow> [] | ListNode l \<Rightarrow> l | ExprNode e \<Rightarrow> [ExprNode e]),
      subquery_planner =
        (\<lambda>glob q parent_root hasRecursion tuple_fraction. (q\<lparr>targetList := []\<rparr>, Query.rtable q, 7)),
      DuckdbCreateConnection = (\<lambda>rtables root vars query_string. (rtables, root, vars, query_string)),
      Prepare = (\<lambda>conn query_string. demo_columns),
      GetPostgresDuckDBType =
        (\<lambda>ty. if ty = ''INTEGER'' then 23 else if ty = ''VARCHAR'' then 25
              else if ty = ''HUGEINT'' then 1700 else InvalidOid),
      SearchSysCache1 =
        (\<lambda>cache oid. if oid = 23 then Some \<lparr>typtypmod = - 1, typcollation = 0\<rparr>
              else if oid = 25 then Some \<lparr>typtypmod = - 1, typcollation = 100\<rparr>
              else None)\<rparr>"

definition demo_guc :: guc_state where
  "demo_guc =
     \<lparr>GUCNestLevel = 0,
      guc_value = (\<lambda>name. if name = ''search_path'' then ''public'' else []),
      guc_stack = (\<lambda>name. [])\<rparr>"

definition demo_state :: "nat state" where
  "demo_state =
     \<lparr>heap = [demo_query], rtable_object = (\<lambda>a. []), guc = demo_guc, ActivePortal = None,
      duckdb_explain_analyze = False, server_log = []\<rparr>"

definition demo_env_rejecting ::
  "(nat, string, nat Node list \<times> nat \<times> nat Node list \<times> string, nat) env" where
  "demo_env_rejecting =
     demo_env\<lparr>Prepare :=
       (\<lambda>conn query_string.
          \<lparr>HasError = True, GetError = ''Parser Error: syntax error'',
           GetTypes = [], GetNames = []\<rparr>)\<rparr>"

definition demo_env_hugeint ::
  "(nat, string, nat Node list \<times> nat \<times> nat Node list \<times> string, nat) env" where
  "demo_env_hugeint =
     demo_env\<lparr>Prepare :=
       (\<lambda>conn query_string.
          \<lparr>HasError = False, GetError = [],
           GetTypes = [''INTEGER'', ''HUGEINT'', ''VARCHAR''],
           GetNames = [''a'', ''h'', ''b'']\<rparr>)\<rparr>"

definition demo_env_union ::
  "(nat, string, nat Node list \<times> nat \<times> nat Node list \<times> string, nat) env" where
  "demo_env_union =
     demo_env\<lparr>Prepare :=
       (\<lambda>conn query_string.
          \<lparr>HasError = False, GetError = [], GetTypes = [''UNION''], GetNames = [''u'']\<rparr>)\<rparr>"

definition demo_env_map ::
  "(nat, string, nat Node list \<times> nat \<times> nat Node list \<times> string, nat) env" where
  "demo_env_map =
     demo_env\<lparr>Prepare :=
       (\<lambda>conn query_string.
          \<lparr>HasError = False, GetError = [], GetTypes = [''MAP''], GetNames = [''u'']\<rparr>)\<rparr>"

definition demo_env_extending ::
  "(nat, string, nat Node list \<times> nat \<times> nat Node list \<times> string, nat) env" where
  "demo_env_extending =
     demo_env\<lparr>subquery_planner :=
       (\<lambda>glob q parent_root hasRecursion tuple_fraction.
          (q\<lparr>Query.rtable := Query.rtable q @ [ExprNode 101]\<rparr>,
           Query.rtable q @ [ExprNode 101], 7))\<rparr>"

definition demo_raise_state :: "nat state" where
  "demo_raise_state = demo_state\<lparr>heap := [demo_query\<lparr>Query.commandType := CMD_NOTHING\<rparr>]\<rparr>"

definition demo_explain_state :: "nat state" where
  "demo_explain_state = demo_state\<lparr>ActivePortal := Some \<lparr>commandTag = CMDTAG_EXPLAIN\<rparr>\<rparr>"

text \<open>
  What the demonstration run leaves behind: the connection, the state after
  \<open>DuckdbPrepare\<close> (the rewritten copy at address 1, one debug line in the log), and the
  plan node for the columns \<open>a INTEGER, b VARCHAR\<close>.
\<close>

definition demo_conn :: "nat Node list \<times> nat \<times> nat Node list \<times> string" where
  "demo_conn = ([ExprNode 100], 7, [ExprNode 1, ExprNode 2, ExprNode 3], ''SELECT a, b FROM public.t'')"

definition demo_prepared_state :: "nat state" where
  "demo_prepared_state =
     demo_state\<lparr>heap := [demo_query, demo_query\<lparr>targetList := []\<rparr>],
                rtable_object := (\<lambda>a. [])(1 := [ExprNode 100]),
                server_log := [(DEBUG2, ''(PGDuckDB/DuckdbPrepare) Preparing: SELECT a, b FROM public.t'')]\<rparr>"

definition demo_plan :: CustomScan where
  "demo_plan =
     \<lparr>custom_scan_tlist =
        [\<lparr>expr = \<lparr>varno = - 3, varattno = 1, vartype = 23, vartypmod = - 1, varcollid = 0,
                  varlevelsup = 0\<rparr>,
          resno = 1, resname = ''a'', resjunk = False\<rparr>,
         \<lparr>expr = \<lparr>varno = - 3, varattno = 2, vartype = 25, vartypmod = - 1, varcollid = 100,
                  varlevelsup = 0\<rparr>,
          resno = 2, resname = ''b'', resjunk = False\<rparr>],
      custom_private = [0],
      methods = Some duckdb_scan_scan_methods\<rparr>"

section \<open>Auxiliary facts\<close>

subsection \<open>Rolling back a nesting level\<close>

lemma guc_rollback_below:
  "list_all (\<lambda>e. fst e < n) st \<Longrightarrow> guc_rollback n cur st = (cur, st)"
  by (induction st arbitrary: cur) auto

lemma guc_restore:
  assumes "guc_wf g"
  shows "AtEOXact_GUC_false (fst (NewGUCNestLevel g))
           (SetConfigOption name v c src (snd (NewGUCNestLevel g))) = g"
proof -
  let ?L = "GUCNestLevel g + 1"
  have lv: "0 \<le> GUCNestLevel g"
    and st: "\<And>n. list_all (\<lambda>e. fst e \<le> GUCNestLevel g) (guc_stack g n)"
    using assms by (simp_all add: guc_wf_def)
  have below: "\<And>n. list_all (\<lambda>e. fst e < ?L) (guc_stack g n)"
    using st by (simp add: list_all_iff) 
  have rb: "\<And>n cur. guc_rollback ?L cur (guc_stack g n) = (cur, guc_stack g n)"
    using below by (rule guc_rollback_below)
  have top: "\<And>l p rest. guc_stack g name = (l, p) # rest \<Longrightarrow> \<not> ?L \<le> l"
    using st [of name] by auto
  have push: "push_old_value name (g\<lparr>GUCNestLevel := ?L\<rparr>) =
      g\<lparr>GUCNestLevel := ?L,
        guc_stack := (guc_stack g)(name := (?L, guc_value g name) # guc_stack g name)\<rparr>"
    using lv top by (auto simp: push_old_value_def split: list.splits)
  define g2 where "g2 = SetConfigOption name v c src (snd (NewGUCNestLevel g))"
  have g2: "g2 = g\<lparr>GUCNestLevel := ?L,
        guc_stack := (guc_stack g)(name := (?L, guc_value g name) # guc_stack g name),
        guc_value := (guc_value g)(name := v)\<rparr>"
    by (simp add: g2_def NewGUCNestLevel_def SetConfigOption_def push Let_def)
  have both: "guc_rollback ?L (guc_value g2 n) (guc_stack g2 n) = (guc_value g n, guc_stack g n)"
    for n
    by (cases "n = name") (simp_all add: g2 rb)
  have vals: "guc_value (AtEOXact_GUC_false ?L g2) = guc_value g"
    by (rule ext) (simp add: AtEOXact_GUC_false_def both)
  have stks: "guc_stack (AtEOXact_GUC_false ?L g2) = guc_stack g"
    by (rule ext) (simp add: AtEOXact_GUC_false_def both)
  have lvl: "GUCNestLevel (AtEOXact_GUC_false ?L g2) = GUCNestLevel g"
    by (simp add: AtEOXact_GUC_false_def)
  have more: "guc_state.more (AtEOXact_GUC_false ?L g2) = guc_state.more g"
    by (simp add: AtEOXact_GUC_false_def g2)
  have "AtEOXact_GUC_false ?L g2 = g"
    using lvl vals stks more by (rule guc_state.equality)
  then show ?thesis
    by (simp add: g2_def NewGUCNestLevel_def)
qed

subsection \<open>The three ways out of \<open>DuckdbPrepare\<close>\<close>

lemma SetConfigOption_value:
  "guc_value (SetConfigOption name v c src g) name = v"
  by (simp add: SetConfigOption_def Let_def)

lemma DuckdbPrepare_invalid:
  "\<not> query < length (heap s) \<Longrightarrow> DuckdbPrepare env query bp s = (s, Inl InvalidPointer)"
  by (simp add: DuckdbPrepare_def copyObjectImpl_def)

lemma DuckdbPrepare_raise:
  assumes "query < length (heap s)"
    and "pgduckdb_pg_get_querydef env (heap s ! query) False [] = Inl e"
  shows "DuckdbPrepare env query bp s =
           (s\<lparr>heap := heap s @ [heap s ! query],
              rtable_object := (rtable_object s)(length (heap s) := Query.rtable (heap s ! query)),
              guc := SetConfigOption ''search_path'' [] PGC_USERSET PGC_S_SESSION
                       (snd (NewGUCNestLevel (guc s)))\<rparr>, Inl e)"
  using assms
  by (simp add: DuckdbPrepare_def copyObjectImpl_def Let_def SetConfigOption_value)

text \<open>
  What the adapter gets as range table: nothing when the copy's range table is \<open>NIL\<close>
  before planning, otherwise the contents the planner leaves in that List.
\<close>

lemma DuckdbPrepare_return:
  assumes "query < length (heap s)"
    and "pgduckdb_pg_get_querydef env (heap s ! query) False [] = Inr deparsed"
  shows "DuckdbPrepare env query bp s =
           (s\<lparr>heap := heap s @
                        [fst (subquery_planner env (PlanQuery_glob bp) (heap s ! query) None False 0)],
              rtable_object := (rtable_object s)
                (length (heap s) :=
                   fst (snd (subquery_planner env (PlanQuery_glob bp) (heap s ! query) None False 0))),
              guc := AtEOXact_GUC_false (fst (NewGUCNestLevel (guc s)))
                       (SetConfigOption ''search_path'' [] PGC_USERSET PGC_S_SESSION
                          (snd (NewGUCNestLevel (guc s)))),
              server_log := server_log s @
                 [(DEBUG2, ''(PGDuckDB/DuckdbPrepare) Preparing: '' @ explain_wrap s deparsed)]\<rparr>,
            Inr (Prepare env
                   (DuckdbCreateConnection env
                      (if Query.rtable (heap s ! query) = [] then []
                       else fst (snd (subquery_planner env (PlanQuery_glob bp) (heap s ! query)
                                        None False 0)))
                      (snd (snd (subquery_planner env (PlanQuery_glob bp) (heap s ! query)
                                   None False 0)))
                      (pull_var_clause env (node_of_list (targetList (heap s ! query)))
                           (PVC_RECURSE_AGGREGATES OR PVC_RECURSE_WINDOWFUNCS
                              OR PVC_RECURSE_PLACEHOLDERS)
                         @ pull_var_clause env (quals (jointree (heap s ! query)))
                             (PVC_RECURSE_AGGREGATES OR PVC_RECURSE_WINDOWFUNCS
                                OR PVC_RECURSE_PLACEHOLDERS))
                      (explain_wrap s deparsed))
                   (explain_wrap s deparsed),
                 DuckdbCreateConnection env
                      (if Query.rtable (heap s ! query) = [] then []
                       else fst (snd (subquery_planner env (PlanQuery_glob bp) (heap s ! query)
                                        None False 0)))
                      (snd (snd (subquery_planner env (PlanQuery_glob bp) (heap s ! query)
                                   None False 0)))
                      (pull_var_clause env (node_of_list (targetList (heap s ! query)))
                           (PVC_RECURSE_AGGREGATES OR PVC_RECURSE_WINDOWFUNCS
                              OR PVC_RECURSE_PLACEHOLDERS)
                         @ pull_var_clause env (quals (jointree (heap s ! query)))
                             (PVC_RECURSE_AGGREGATES OR PVC_RECURSE_WINDOWFUNCS
                                OR PVC_RECURSE_PLACEHOLDERS))
                      (explain_wrap s deparsed)))"
  using assms
  by (simp add: DuckdbPrepare_def copyObjectImpl_def Let_def SetConfigOption_value
      PlanQuery_def elog_def explain_wrap_def list_concat_def nth_append
      rtable_ptr_def list_contents_def)

lemma DuckdbPrepare_heap:
  "take (length (heap s)) (heap (fst (DuckdbPrepare env query bp s))) = heap s"
proof (cases "query < length (heap s)")
  case False
  then show ?thesis by (simp add: DuckdbPrepare_invalid)
next
  case True
  show ?thesis
  proof (cases "pgduckdb_pg_get_querydef env (heap s ! query) False []")
    case (Inl e)
    show ?thesis by (simp add: DuckdbPrepare_raise [OF True Inl])
  next
    case (Inr deparsed)
    show ?thesis by (simp add: DuckdbPrepare_return [OF True Inr])
  qed
qed

lemma DuckdbPrepare_Inr_valid:
  "snd (DuckdbPrepare env query bp s) = Inr r \<Longrightarrow> query < length (heap s)"
  by (rule ccontr) (simp add: DuckdbPrepare_invalid)

lemma DuckdbPrepare_Inr_deparsed:
  assumes "snd (DuckdbPrepare env query bp s) = Inr r"
  shows "\<exists>deparsed. pgduckdb_pg_get_querydef env (heap s ! query) False [] = Inr deparsed"
proof (cases "pgduckdb_pg_get_querydef env (heap s ! query) False []")
  case (Inl e)
  from assms have "query < length (heap s)" by (rule DuckdbPrepare_Inr_valid)
  from DuckdbPrepare_raise [OF this Inl] assms show ?thesis by simp
next
  case (Inr deparsed)
  then show ?thesis by simp
qed

subsection \<open>The column loop\<close>

declare CreatePlan_loop.simps [simp del]

lemma CreatePlan_loop_heap:
  "heap (fst (CreatePlan_loop env p i node s)) = heap s"
proof (induction "length (GetTypes p) - i" arbitrary: i node)
  case 0
  then show ?case
    by (subst CreatePlan_loop.simps) simp
next
  case (Suc k)
  then have "k = length (GetTypes p) - (i + 1)" by simp
  then have "heap (fst (CreatePlan_loop env p (i + 1) nd s)) = heap s" for nd
    by (rule Suc.hyps(1))
  then show ?case
    by (subst CreatePlan_loop.simps) (simp add: Let_def elog_def split: option.splits)
qed

lemma CreatePlan_loop_mapped:
  assumes all: "\<forall>ty\<in>set (GetTypes p). type_mapped env ty"
    and len: "length (GetTypes p) \<le> length (GetNames p)"
  shows "i \<le> length (GetTypes p) \<Longrightarrow>
         \<exists>node'. CreatePlan_loop env p i node s = (s, Inr (Some node'))
           \<and> map resname (custom_scan_tlist node')
               = map resname (custom_scan_tlist node)
                   @ map c_str (drop i (take (length (GetTypes p)) (GetNames p)))
           \<and> map (\<lambda>te. vartype (expr te)) (custom_scan_tlist node')
               = map (\<lambda>te. vartype (expr te)) (custom_scan_tlist node)
                   @ map (GetPostgresDuckDBType env) (drop i (GetTypes p))
           \<and> custom_private node' = custom_private node
           \<and> methods node' = methods node"
proof (induction "length (GetTypes p) - i" arbitrary: i node)
  case 0
  then have "i = length (GetTypes p)" by simp
  then show ?case
    by (subst CreatePlan_loop.simps) simp
next
  case (Suc k)
  then have lt: "i < length (GetTypes p)" by simp
  with all have "type_mapped env (GetTypes p ! i)" by simp
  then obtain typtup where valid: "OidIsValid (GetPostgresDuckDBType env (GetTypes p ! i))"
    and cat: "SearchSysCache1 env TYPEOID (GetPostgresDuckDBType env (GetTypes p ! i)) = Some typtup"
    by (auto simp: type_mapped_def)
  from lt len have ltn: "i < length (GetNames p)" by simp
  define nd where "nd = node\<lparr>custom_scan_tlist :=
      lappend (custom_scan_tlist node)
        (makeTargetEntry
           (makeVar INDEX_VAR (of_nat (i + 1)) (GetPostgresDuckDBType env (GetTypes p ! i))
              (typtypmod typtup) (typcollation typtup) 0)
           (of_nat (i + 1)) (pstrdup (c_str (GetNames p ! i))) False)\<rparr>"
  have step: "CreatePlan_loop env p i node s = CreatePlan_loop env p (i + 1) nd s"
    using lt valid cat ltn by (subst CreatePlan_loop.simps) (simp add: Let_def nd_def)
  from Suc.hyps(2) lt have "k = length (GetTypes p) - (i + 1)" and "i + 1 \<le> length (GetTypes p)"
    by simp_all
  from Suc.hyps(1) [OF this, of nd] obtain node' where
    run: "CreatePlan_loop env p (i + 1) nd s = (s, Inr (Some node'))"
    and nm: "map resname (custom_scan_tlist node')
               = map resname (custom_scan_tlist nd)
                   @ map c_str (drop (i + 1) (take (length (GetTypes p)) (GetNames p)))"
    and ty: "map (\<lambda>te. vartype (expr te)) (custom_scan_tlist node')
               = map (\<lambda>te. vartype (expr te)) (custom_scan_tlist nd)
                   @ map (GetPostgresDuckDBType env) (drop (i + 1) (GetTypes p))"
    and pr: "custom_private node' = custom_private nd"
    and me: "methods node' = methods nd"
    by blast
  have d1: "drop i (take (length (GetTypes p)) (GetNames p))
              = GetNames p ! i # drop (i + 1) (take (length (GetTypes p)) (GetNames p))"
    using lt ltn by (simp add: Cons_nth_drop_Suc [symmetric])
  have d2: "drop i (GetTypes p) = GetTypes p ! i # drop (i + 1) (GetTypes p)"
    using lt by (simp add: Cons_nth_drop_Suc)
  have "map resname (custom_scan_tlist node')
          = map resname (custom_scan_tlist node)
              @ map c_str (drop i (take (length (GetTypes p)) (GetNames p)))"
    by (simp add: nm d1) (simp add: nd_def lappend_def makeTargetEntry_def pstrdup_def)
  moreover have "map (\<lambda>te. vartype (expr te)) (custom_scan_tlist node')
          = map (\<lambda>te. vartype (expr te)) (custom_scan_tlist node)
              @ map (GetPostgresDuckDBType env) (drop i (GetTypes p))"
    by (simp add: ty d2) (simp add: nd_def lappend_def makeTargetEntry_def makeVar_def)
  moreover have "custom_private node' = custom_private node" "methods node' = methods node"
    by (simp_all add: pr me nd_def)
  ultimately show ?case
    using step run by simp
qed

lemma CreatePlan_loop_unmapped:
  assumes k: "k < length (GetTypes p)"
    and bad: "\<not> type_mapped env (GetTypes p ! k)"
    and before: "\<forall>j<k. type_mapped env (GetTypes p ! j)"
    and len: "k \<le> length (GetNames p)"
  shows "i \<le> k \<Longrightarrow>
         CreatePlan_loop env p i node s =
           (elog WARNING (''(PGDuckDB/CreatePlan) Cache lookup failed for type ''
                            @ format_u (GetPostgresDuckDBType env (GetTypes p ! k))) s, Inr None)"
proof (induction "k - i" arbitrary: i node)
  case 0
  then have "i = k" by simp
  then show ?case
    using k bad
    by (subst CreatePlan_loop.simps) (auto simp: Let_def type_mapped_def split: option.splits)
next
  case (Suc d)
  then have lt: "i < k" by simp
  with before have "type_mapped env (GetTypes p ! i)" by simp
  then obtain typtup where valid: "OidIsValid (GetPostgresDuckDBType env (GetTypes p ! i))"
    and cat: "SearchSysCache1 env TYPEOID (GetPostgresDuckDBType env (GetTypes p ! i)) = Some typtup"
    by (auto simp: type_mapped_def)
  from lt len have ltn: "i < length (GetNames p)" by simp
  from lt k have ltt: "i < length (GetTypes p)" by simp
  from Suc.hyps(2) lt have "d = k - (i + 1)" and "i + 1 \<le> k" by simp_all
  note IH = Suc.hyps(1) [OF this]
  define nd where "nd = node\<lparr>custom_scan_tlist :=
      lappend (custom_scan_tlist node)
        (makeTargetEntry
           (makeVar INDEX_VAR (of_nat (i + 1)) (GetPostgresDuckDBType env (GetTypes p ! i))
              (typtypmod typtup) (typcollation typtup) 0)
           (of_nat (i + 1)) (pstrdup (c_str (GetNames p ! i))) False)\<rparr>"
  have "CreatePlan_loop env p i node s = CreatePlan_loop env p (i + 1) nd s"
    using ltt valid cat ltn by (subst CreatePlan_loop.simps) (simp add: Let_def nd_def)
  then show ?case
    by (simp only: IH)
qed

subsection \<open>\<open>CreatePlan\<close> and \<open>DuckdbPlanNode\<close>\<close>

lemma CreatePlan_heap:
  "take (length (heap s)) (heap (fst (CreatePlan env query bp s))) = heap s"
proof -
  obtain s1 r where run: "DuckdbPrepare env query bp s = (s1, r)"
    by (cases "DuckdbPrepare env query bp s")
  have h1: "take (length (heap s)) (heap s1) = heap s"
    using DuckdbPrepare_heap [of s env query bp] by (simp add: run)
  have "heap (fst (CreatePlan env query bp s)) = heap s1"
  proof (cases r)
    case (Inl e)
    then show ?thesis by (simp add: CreatePlan_def run)
  next
    case (Inr pc)
    obtain p c where pc: "pc = (p, c)" by (cases pc)
    obtain s2 r2 where loop: "CreatePlan_loop env p 0 makeNode_CustomScan s1 = (s2, r2)"
      by (cases "CreatePlan_loop env p 0 makeNode_CustomScan s1")
    have "heap s2 = heap s1"
      using CreatePlan_loop_heap [of env p 0 makeNode_CustomScan s1] by (simp add: loop)
    then show ?thesis
      by (simp add: CreatePlan_def run Inr pc loop elog_def split: sum.splits option.splits)
  qed
  with h1 show ?thesis by simp
qed

lemma CreatePlan_Inr_valid:
  assumes "snd (CreatePlan env query bp s) = Inr r"
  shows "query < length (heap s)"
proof (rule ccontr)
  assume "\<not> query < length (heap s)"
  then have "CreatePlan env query bp s = (s, Inl InvalidPointer)"
    by (simp add: CreatePlan_def DuckdbPrepare_invalid)
  with assms show False by simp
qed

lemma CreatePlan_prepare_error:
  assumes "DuckdbPrepare env query bp s = (s1, Inr (prepared_query, conn))"
    and "HasError prepared_query"
  shows "CreatePlan env query bp s =
           (elog WARNING (''(PGDuckDB/CreatePlan) Prepared query returned an error: ''
                            @ [CHR 0x27] @ GetError prepared_query) s1, Inr None)"
  using assms by (simp add: CreatePlan_def)

lemma DuckdbPlanNode_null:
  "CreatePlan env parse bp s = (s1, Inr None) \<Longrightarrow>
   DuckdbPlanNode env parse cursor_options bp s = (s1, Inr None)"
  by (simp add: DuckdbPlanNode_def)

lemma DuckdbPlanNode_return:
  assumes run: "CreatePlan env parse bp s = (s1, Inr (Some duckdb_plan))"
  shows "DuckdbPlanNode env parse cursor_options bp s =
           (s1, Inr (Some
               \<lparr>commandType = Query.commandType (heap s ! parse),
                queryId = Query.queryId (heap s ! parse),
                hasReturning = (returningList (heap s ! parse) \<noteq> []),
                hasModifyingCTE = Query.hasModifyingCTE (heap s ! parse),
                canSetTag = Query.canSetTag (heap s ! parse),
                transientPlan = False,
                dependsOnRole = False,
                parallelModeNeeded = False,
                planTree = duckdb_plan,
                rtable = [],
                permInfos = [],
                resultRelations = [],
                appendRelations = [],
                subplans = [],
                rewindPlanIDs = {},
                rowMarks = [],
                relationOids = [],
                invalItems = [],
                paramExecTypes = [],
                utilityStmt = Query.utilityStmt (heap s ! parse),
                stmt_location = Query.stmt_location (heap s ! parse),
                stmt_len = Query.stmt_len (heap s ! parse)\<rparr>))"
proof -
  from run have valid: "parse < length (heap s)"
    using CreatePlan_Inr_valid [of env parse bp s] by simp
  have pre: "take (length (heap s)) (heap s1) = heap s"
    using CreatePlan_heap [of s env parse bp] by (simp add: run)
  then have "length (heap s) \<le> length (heap s1)"
    by (metis length_take min.cobounded1)
  with valid have valid1: "parse < length (heap s1)" by simp
  from pre valid have same: "heap s1 ! parse = heap s ! parse"
    by (metis nth_take)
  show ?thesis
    by (simp add: DuckdbPlanNode_def run valid1 same)
qed

lemma DuckdbPlanNode_state:
  "fst (DuckdbPlanNode env parse cursor_options bp s) = fst (CreatePlan env parse bp s)"
  by (simp add: DuckdbPlanNode_def split: prod.splits sum.splits option.splits)

lemma first_unmapped:
  assumes "ty \<in> set tys" and "\<not> P ty"
  shows "\<exists>k<length tys. \<not> P (tys ! k) \<and> (\<forall>j<k. P (tys ! j))"
proof -
  from assms obtain n where n: "n < length tys" "\<not> P (tys ! n)"
    by (auto simp: in_set_conv_nth)
  define k where "k = (LEAST k. k < length tys \<and> \<not> P (tys ! k))"
  have k: "k < length tys \<and> \<not> P (tys ! k)"
    unfolding k_def using n by (intro LeastI [of "\<lambda>k. k < length tys \<and> \<not> P (tys ! k)" n]) simp
  have "P (tys ! j)" if "j < k" for j
  proof (rule ccontr)
    assume "\<not> P (tys ! j)"
    moreover from that k have "j < length tys" by simp
    ultimately have "k \<le> j"
      unfolding k_def by (intro Least_le) simp
    with that show False by simp
  qed
  with k show ?thesis by blast
qed

lemma explain_wrap_toggle:
  assumes "ActivePortal s = Some portal" and "commandTag portal = CMDTAG_EXPLAIN"
  shows "explain_wrap (s\<lparr>duckdb_explain_analyze := analyze\<rparr>) deparsed
           = (if analyze then ''EXPLAIN ANALYZE '' else ''EXPLAIN '') @ deparsed"
  using assms by (simp add: explain_wrap_def)

text \<open>
  A result type that fails one of the two checks: \<open>CreatePlan\<close> stops at the first such
  column, logs the host type identifier the mapper gave for it, and returns null; so
  does \<open>DuckdbPlanNode\<close>. The node under construction is dropped, never returned.
\<close>

lemma CreatePlan_unmapped:
  assumes prep: "DuckdbPrepare env query bp s = (s1, Inr (prepared_query, conn))"
    and ok: "\<not> HasError prepared_query"
    and names: "length (GetTypes prepared_query) \<le> length (GetNames prepared_query)"
    and col: "column \<in> set (GetTypes prepared_query)"
    and bad: "\<not> type_mapped env column"
  shows "\<exists>k<length (GetTypes prepared_query).
           \<not> type_mapped env (GetTypes prepared_query ! k)
           \<and> (\<forall>j<k. type_mapped env (GetTypes prepared_query ! j))
           \<and> CreatePlan env query bp s =
               (elog WARNING (''(PGDuckDB/CreatePlan) Cache lookup failed for type ''
                  @ format_u (GetPostgresDuckDBType env (GetTypes prepared_query ! k))) s1,
                Inr None)
           \<and> DuckdbPlanNode env query cursor_options bp s =
               (elog WARNING (''(PGDuckDB/CreatePlan) Cache lookup failed for type ''
                  @ format_u (GetPostgresDuckDBType env (GetTypes prepared_query ! k))) s1,
                Inr None)"
proof -
  from first_unmapped [of column "GetTypes prepared_query" "type_mapped env", OF col bad] obtain k
    where k: "k < length (GetTypes prepared_query)"
      and kbad: "\<not> type_mapped env (GetTypes prepared_query ! k)"
      and before: "\<forall>j<k. type_mapped env (GetTypes prepared_query ! j)"
    by blast
  from k names have "k \<le> length (GetNames prepared_query)" by simp
  from CreatePlan_loop_unmapped [OF k kbad before this, of 0 makeNode_CustomScan s1]
  have loop: "CreatePlan_loop env prepared_query 0 makeNode_CustomScan s1 =
      (elog WARNING (''(PGDuckDB/CreatePlan) Cache lookup failed for type ''
         @ format_u (GetPostgresDuckDBType env (GetTypes prepared_query ! k))) s1, Inr None)"
    by simp
  have cp: "CreatePlan env query bp s =
      (elog WARNING (''(PGDuckDB/CreatePlan) Cache lookup failed for type ''
         @ format_u (GetPostgresDuckDBType env (GetTypes prepared_query ! k))) s1, Inr None)"
    using ok by (simp add: CreatePlan_def prep loop del: append.simps)
  from k kbad before cp DuckdbPlanNode_null [OF cp] show ?thesis
    by blast
qed

text \<open>
  The schema \<open>CreatePlan\<close> builds, for any names: entry \<open>i\<close> is named by the C string
  of name \<open>i\<close>.
\<close>

lemma c_str_id: "CHR 0x00 \<notin> set str \<Longrightarrow> c_str str = str"
  by (auto simp: c_str_def)

lemma CreatePlan_schema:
  assumes prep: "DuckdbPrepare env query bp s = (s1, Inr (prepared_query, conn))"
    and ok: "\<not> HasError prepared_query"
    and mapped: "\<forall>column\<in>set (GetTypes prepared_query). type_mapped env column"
    and names: "length (GetTypes prepared_query) \<le> length (GetNames prepared_query)"
  shows "\<exists>node. CreatePlan env query bp s = (s1, Inr (Some node))
           \<and> length (custom_scan_tlist node) = length (GetTypes prepared_query)
           \<and> (\<forall>i<length (GetTypes prepared_query).
                 resname (custom_scan_tlist node ! i) = c_str (GetNames prepared_query ! i)
                 \<and> vartype (expr (custom_scan_tlist node ! i))
                     = GetPostgresDuckDBType env (GetTypes prepared_query ! i))"
proof -
  let ?n = "length (GetTypes prepared_query)"
  from CreatePlan_loop_mapped [OF mapped names, of 0 makeNode_CustomScan s1]
  obtain node' where loop: "CreatePlan_loop env prepared_query 0 makeNode_CustomScan s1
                              = (s1, Inr (Some node'))"
    and nm: "map resname (custom_scan_tlist node') = map c_str (take ?n (GetNames prepared_query))"
    and ty: "map (\<lambda>te. vartype (expr te)) (custom_scan_tlist node')
               = map (GetPostgresDuckDBType env) (GetTypes prepared_query)"
    by (auto simp: makeNode_CustomScan_def)
  define node where "node = node'\<lparr>custom_private := list_make1 query,
                                  methods := Some duckdb_scan_scan_methods\<rparr>"
  have cp: "CreatePlan env query bp s = (s1, Inr (Some node))"
    using ok by (simp add: CreatePlan_def prep loop node_def)
  have tl: "custom_scan_tlist node = custom_scan_tlist node'"
    by (simp add: node_def)
  have len: "length (custom_scan_tlist node) = ?n"
    using arg_cong [OF ty, of length] by (simp add: tl)
  have "resname (custom_scan_tlist node ! i) = c_str (GetNames prepared_query ! i)
        \<and> vartype (expr (custom_scan_tlist node ! i))
            = GetPostgresDuckDBType env (GetTypes prepared_query ! i)" if "i < ?n" for i
  proof -
    from that len have i: "i < length (custom_scan_tlist node')" by (simp add: tl)
    have "resname (custom_scan_tlist node' ! i) = map resname (custom_scan_tlist node') ! i"
      using i by simp
    also have "\<dots> = c_str (GetNames prepared_query ! i)"
      using that names by (simp add: nm)
    finally have a: "resname (custom_scan_tlist node ! i) = c_str (GetNames prepared_query ! i)"
      by (simp add: tl)
    have "vartype (expr (custom_scan_tlist node' ! i))
            = map (\<lambda>te. vartype (expr te)) (custom_scan_tlist node') ! i"
      using i by simp
    also have "\<dots> = GetPostgresDuckDBType env (GetTypes prepared_query ! i)"
      using that by (simp add: ty)
    finally show ?thesis using a by (simp add: tl)
  qed
  with cp len show ?thesis by blast
qed

subsection \<open>The demonstration run\<close>

lemma demo_guc_wf: "guc_wf demo_guc"
  by (simp add: guc_wf_def demo_guc_def)

lemma pull_var_flags_value:
  "PVC_RECURSE_AGGREGATES OR PVC_RECURSE_WINDOWFUNCS OR PVC_RECURSE_PLACEHOLDERS = (0x2A :: 32 word)"
  by (simp add: PVC_RECURSE_AGGREGATES_def PVC_RECURSE_WINDOWFUNCS_def PVC_RECURSE_PLACEHOLDERS_def)

lemma demo_DuckdbPrepare_engine:
  "DuckdbPrepare (demo_env\<lparr>Prepare := engine\<rparr>) 0 None demo_state =
     (demo_prepared_state, Inr (engine demo_conn ''SELECT a, b FROM public.t'', demo_conn))"
proof -
  have valid: "0 < length (heap demo_state)"
    by (simp add: demo_state_def)
  have dep: "pgduckdb_pg_get_querydef (demo_env\<lparr>Prepare := engine\<rparr>) (heap demo_state ! 0) False []
                = Inr ''SELECT a, b FROM public.t''"
    by (simp add: demo_env_def demo_state_def demo_query_def)
  have g: "guc_wf (guc demo_state)"
    by (simp add: demo_state_def demo_guc_wf)
  show ?thesis
    unfolding DuckdbPrepare_return [OF valid dep] guc_restore [OF g]
    by (simp add: demo_env_def demo_state_def demo_query_def explain_wrap_def node_of_list_def
        demo_conn_def demo_prepared_state_def)
qed

lemma demo_DuckdbPrepare:
  "DuckdbPrepare demo_env 0 None demo_state = (demo_prepared_state, Inr (demo_columns, demo_conn))"
  using demo_DuckdbPrepare_engine [of "Prepare demo_env"] by (simp add: demo_env_def)

lemma demo_mapped:
  "type_mapped (demo_env\<lparr>Prepare := engine\<rparr>) ''INTEGER''"
  "type_mapped (demo_env\<lparr>Prepare := engine\<rparr>) ''VARCHAR''"
  "\<not> type_mapped (demo_env\<lparr>Prepare := engine\<rparr>) ''HUGEINT''"
  by (simp_all add: type_mapped_def demo_env_def OidIsValid_def InvalidOid_def)

lemma demo_CreatePlan_loop:
  "CreatePlan_loop demo_env demo_columns 0 makeNode_CustomScan s
     = (s, Inr (Some (demo_plan\<lparr>custom_private := [], methods := None\<rparr>)))"
  by (simp add: CreatePlan_loop.simps demo_columns_def
      demo_env_def OidIsValid_def InvalidOid_def makeNode_CustomScan_def makeVar_def
      makeTargetEntry_def lappend_def INDEX_VAR_def demo_plan_def pstrdup_def c_str_def)

lemma demo_CreatePlan:
  "CreatePlan demo_env 0 None demo_state = (demo_prepared_state, Inr (Some demo_plan))"
proof -
  have ok: "\<not> HasError demo_columns"
    by (simp add: demo_columns_def)
  have plan: "demo_plan\<lparr>custom_private := list_make1 0, methods := Some duckdb_scan_scan_methods\<rparr>
                = demo_plan"
    by (simp add: demo_plan_def list_make1_def)
  show ?thesis
    by (simp add: CreatePlan_def demo_DuckdbPrepare ok demo_CreatePlan_loop plan)
qed

text \<open>
  A result type the mapper has no counterpart for is reported under the invalid
  identifier itself: the warning reads \<open>type 0\<close>, whatever the type.
\<close>

lemma demo_loop_unmapped:
  assumes "ty \<noteq> ''INTEGER''" and "ty \<noteq> ''VARCHAR''" and "ty \<noteq> ''HUGEINT''"
  shows "CreatePlan_loop (demo_env\<lparr>Prepare := engine\<rparr>)
           \<lparr>HasError = False, GetError = [], GetTypes = [ty], GetNames = [''u'']\<rparr>
           0 makeNode_CustomScan demo_prepared_state
         = (demo_prepared_state\<lparr>server_log :=
              [(DEBUG2, ''(PGDuckDB/DuckdbPrepare) Preparing: SELECT a, b FROM public.t''),
               (WARNING, ''(PGDuckDB/CreatePlan) Cache lookup failed for type 0'')]\<rparr>, Inr None)"
  using assms
  by (simp add: CreatePlan_loop.simps demo_env_def OidIsValid_def InvalidOid_def
      format_u_def elog_def demo_prepared_state_def)

text \<open>A second column of type \<open>HUGEINT\<close>: mapped to 1700, which the catalog lacks.\<close>

lemma demo_CreatePlan_hugeint:
  "DuckdbPrepare demo_env_hugeint 0 None demo_state
     = (demo_prepared_state,
        Inr (\<lparr>HasError = False, GetError = [],
               GetTypes = [''INTEGER'', ''HUGEINT'', ''VARCHAR''],
               GetNames = [''a'', ''h'', ''b'']\<rparr>, demo_conn))
   \<and> \<not> type_mapped demo_env_hugeint ''HUGEINT''
   \<and> CreatePlan demo_env_hugeint 0 None demo_state
     = (demo_prepared_state\<lparr>server_log :=
          [(DEBUG2, ''(PGDuckDB/DuckdbPrepare) Preparing: SELECT a, b FROM public.t''),
           (WARNING, ''(PGDuckDB/CreatePlan) Cache lookup failed for type 1700'')]\<rparr>, Inr None)
   \<and> DuckdbPlanNode demo_env_hugeint 0 0 None demo_state
     = (demo_prepared_state\<lparr>server_log :=
          [(DEBUG2, ''(PGDuckDB/DuckdbPrepare) Preparing: SELECT a, b FROM public.t''),
           (WARNING, ''(PGDuckDB/CreatePlan) Cache lookup failed for type 1700'')]\<rparr>, Inr None)"
proof -
  let ?p = "\<lparr>HasError = False, GetError = [],
               GetTypes = [''INTEGER'', ''HUGEINT'', ''VARCHAR''],
               GetNames = [''a'', ''h'', ''b'']\<rparr>"
  have prep: "DuckdbPrepare demo_env_hugeint 0 None demo_state
                = (demo_prepared_state, Inr (?p, demo_conn))"
    unfolding demo_env_hugeint_def by (rule demo_DuckdbPrepare_engine)
  have ok: "\<not> HasError ?p" by simp
  have names: "length (GetTypes ?p) \<le> length (GetNames ?p)" by simp
  have col: "''HUGEINT'' \<in> set (GetTypes ?p)" by simp
  have m0: "type_mapped demo_env_hugeint (GetTypes ?p ! 0)"
    and m1: "\<not> type_mapped demo_env_hugeint (GetTypes ?p ! 1)"
    and bad: "\<not> type_mapped demo_env_hugeint ''HUGEINT''"
    unfolding demo_env_hugeint_def by (simp_all add: demo_mapped)
  from CreatePlan_unmapped [OF prep ok names col bad, of 0]
  obtain k where k: "k < length (GetTypes ?p)"
    and kbad: "\<not> type_mapped demo_env_hugeint (GetTypes ?p ! k)"
    and before: "\<forall>j<k. type_mapped demo_env_hugeint (GetTypes ?p ! j)"
    and cp: "CreatePlan demo_env_hugeint 0 None demo_state =
               (elog WARNING (''(PGDuckDB/CreatePlan) Cache lookup failed for type ''
                  @ format_u (GetPostgresDuckDBType demo_env_hugeint (GetTypes ?p ! k)))
                  demo_prepared_state, Inr None)"
    and pn: "DuckdbPlanNode demo_env_hugeint 0 0 None demo_state =
               (elog WARNING (''(PGDuckDB/CreatePlan) Cache lookup failed for type ''
                  @ format_u (GetPostgresDuckDBType demo_env_hugeint (GetTypes ?p ! k)))
                  demo_prepared_state, Inr None)"
    by blast
  have "k = 1"
  proof (rule ccontr)
    assume "k \<noteq> 1"
    with kbad m0 have "1 < k" by (cases "k = 0") auto
    with before m1 show False by blast
  qed
  have logged: "elog WARNING (''(PGDuckDB/CreatePlan) Cache lookup failed for type ''
                  @ format_u (GetPostgresDuckDBType demo_env_hugeint (GetTypes ?p ! 1)))
                  demo_prepared_state
     = demo_prepared_state\<lparr>server_log :=
          [(DEBUG2, ''(PGDuckDB/DuckdbPrepare) Preparing: SELECT a, b FROM public.t''),
           (WARNING, ''(PGDuckDB/CreatePlan) Cache lookup failed for type 1700'')]\<rparr>"
    by (simp add: elog_def demo_prepared_state_def demo_env_hugeint_def demo_env_def format_u_def)
  from cp pn prep bad show ?thesis
    unfolding \<open>k = 1\<close> logged by simp
qed

text \<open>A name with a NUL byte in it reaches the schema cut short.\<close>

lemma demo_name_cut_at_NUL:
  "CreatePlan_loop demo_env
     \<lparr>HasError = False, GetError = [], GetTypes = [''INTEGER''],
       GetNames = [[CHR ''a'', CHR 0x00, CHR ''b'']]\<rparr>
     0 makeNode_CustomScan s
   = (s, Inr (Some \<lparr>custom_scan_tlist =
        [\<lparr>expr = \<lparr>varno = - 3, varattno = 1, vartype = 23, vartypmod = - 1, varcollid = 0,
                  varlevelsup = 0\<rparr>,
          resno = 1, resname = ''a'', resjunk = False\<rparr>],
        custom_private = [], methods = None\<rparr>))"
  by (simp add: CreatePlan_loop.simps demo_env_def OidIsValid_def InvalidOid_def
      makeNode_CustomScan_def makeVar_def makeTargetEntry_def lappend_def INDEX_VAR_def
      pstrdup_def c_str_def)

text \<open>
  A planner that appends an entry to the range table in place: the adapter is opened
  with the extended list, not with the one the copy had when the pointer was taken.
\<close>

lemma demo_adapter_gets_planned_rtable:
  "snd (DuckdbPrepare demo_env_extending 0 None demo_state)
     = Inr (demo_columns,
            ([ExprNode 100, ExprNode 101], 7, [ExprNode 1, ExprNode 2, ExprNode 3],
             ''SELECT a, b FROM public.t''))"
proof -
  have valid: "0 < length (heap demo_state)"
    by (simp add: demo_state_def)
  have dep: "pgduckdb_pg_get_querydef demo_env_extending (heap demo_state ! 0) False []
                = Inr ''SELECT a, b FROM public.t''"
    by (simp add: demo_env_extending_def demo_env_def demo_state_def demo_query_def)
  show ?thesis
    unfolding DuckdbPrepare_return [OF valid dep]
    by (simp add: demo_env_extending_def demo_env_def demo_state_def demo_query_def
        explain_wrap_def node_of_list_def)
qed

section \<open>Properties of \<open>DuckdbPrepare\<close>\<close>

text \<open>
  C4. Whatever tree the caller passes, \<open>DuckdbPrepare\<close> leaves it as it was: the pointer
  addresses the same tree afterwards, and so does every other pointer that was valid
  before the call, whether the call returns, the deparser raises, or the pointer is
  invalid. The planner's rewriting lands in the copy, at an address that did not exist
  before. The same holds for the whole planning attempt through \<open>DuckdbPlanNode\<close>,
  whatever it returns.
\<close>

theorem DuckdbPrepare_keeps_original:
  "deref (fst (DuckdbPrepare env query bp s)) query = deref s query
   \<and> take (length (heap s)) (heap (fst (DuckdbPrepare env query bp s))) = heap s
   \<and> take (length (heap s)) (heap (fst (DuckdbPlanNode env query cursor_options bp s))) = heap s"
proof -
  let ?h' = "heap (fst (DuckdbPrepare env query bp s))"
  have pre: "take (length (heap s)) ?h' = heap s"
    by (rule DuckdbPrepare_heap)
  have "deref (fst (DuckdbPrepare env query bp s)) query = deref s query"
  proof (cases "query < length (heap s)")
    case False
    then show ?thesis by (simp add: DuckdbPrepare_invalid)
  next
    case True
    from pre have "length (heap s) \<le> length ?h'"
      by (metis length_take min.cobounded1)
    moreover from pre True have "?h' ! query = heap s ! query"
      by (metis nth_take)
    ultimately show ?thesis
      using True by (simp add: deref_def)
  qed
  moreover have "take (length (heap s)) (heap (fst (DuckdbPlanNode env query cursor_options bp s)))
                   = heap s"
    by (simp add: DuckdbPlanNode_state CreatePlan_heap)
  ultimately show ?thesis
    using pre by simp
qed

text \<open>
  On the demonstration host the planner empties the target list of the tree it is given:
  the copy at address 1 shows it, the caller's tree at address 0 does not.
\<close>

theorem DuckdbPrepare_keeps_original_witness:
  "deref (fst (DuckdbPrepare demo_env 0 None demo_state)) 0 = Some demo_query
   \<and> heap (fst (DuckdbPrepare demo_env 0 None demo_state))
       = [demo_query, demo_query\<lparr>targetList := []\<rparr>]"
proof -
  have "deref (fst (DuckdbPrepare demo_env 0 None demo_state)) 0 = deref demo_state 0"
    using DuckdbPrepare_keeps_original [of demo_env 0 None demo_state 0] by (rule conjunct1)
  moreover have "deref demo_state 0 = Some demo_query"
    by (simp add: deref_def demo_state_def)
  ultimately show ?thesis
    by (simp add: demo_DuckdbPrepare demo_prepared_state_def)
qed

text \<open>
  C5, as claimed, fails on the path where the deparser raises: the error leaves
  \<open>DuckdbPrepare\<close> between \<open>SetConfigOption\<close> and \<open>AtEOXact_GUC\<close>, with the search
  path still empty.
\<close>

theorem search_path_left_cleared_on_raise:
  "snd (DuckdbPrepare demo_env 0 None demo_raise_state) = Inl (ERROR ''unrecognized query command type'')
   \<and> guc_value (guc demo_raise_state) ''search_path'' = ''public''
   \<and> guc_value (guc (fst (DuckdbPrepare demo_env 0 None demo_raise_state))) ''search_path'' = []
   \<and> guc (fst (DuckdbPrepare demo_env 0 None demo_raise_state)) \<noteq> guc demo_raise_state"
proof -
  have valid: "0 < length (heap demo_raise_state)"
    by (simp add: demo_raise_state_def demo_state_def)
  have dep: "pgduckdb_pg_get_querydef demo_env (heap demo_raise_state ! 0) False []
                = Inl (ERROR ''unrecognized query command type'')"
    by (simp add: demo_env_def demo_raise_state_def demo_state_def demo_query_def)
  have before: "guc_value (guc demo_raise_state) ''search_path'' = ''public''"
    by (simp add: demo_raise_state_def demo_state_def demo_guc_def)
  have after: "guc_value (guc (fst (DuckdbPrepare demo_env 0 None demo_raise_state))) ''search_path'' = []"
    by (simp add: DuckdbPrepare_raise [OF valid dep] SetConfigOption_value)
  from before after
  have "guc (fst (DuckdbPrepare demo_env 0 None demo_raise_state)) \<noteq> guc demo_raise_state"
    by auto
  with before after show ?thesis
    by (simp add: DuckdbPrepare_raise [OF valid dep])
qed

text \<open>
  C5, amended. Whenever \<open>DuckdbPrepare\<close> returns to its caller, with a prepared
  statement that carries an error or one that does not, the whole GUC state, the search
  path included, is what it was before the call.
\<close>

theorem search_path_restored_on_return:
  assumes "guc_wf (guc s)"
    and "snd (DuckdbPrepare env query bp s) = Inr r"
  shows "guc (fst (DuckdbPrepare env query bp s)) = guc s"
proof -
  from assms(2) have valid: "query < length (heap s)"
    by (rule DuckdbPrepare_Inr_valid)
  from assms(2) obtain deparsed
    where dep: "pgduckdb_pg_get_querydef env (heap s ! query) False [] = Inr deparsed"
    using DuckdbPrepare_Inr_deparsed by blast
  show ?thesis
    by (simp add: DuckdbPrepare_return [OF valid dep] guc_restore [OF assms(1)])
qed

theorem search_path_restored_on_return_witness:
  "guc_wf (guc demo_state)
   \<and> snd (DuckdbPrepare demo_env 0 None demo_state) = Inr (demo_columns, demo_conn)
   \<and> guc (fst (DuckdbPrepare demo_env 0 None demo_state)) = guc demo_state"
proof -
  have g: "guc_wf (guc demo_state)"
    by (simp add: demo_state_def demo_guc_wf)
  have r: "snd (DuckdbPrepare demo_env 0 None demo_state) = Inr (demo_columns, demo_conn)"
    by (simp add: demo_DuckdbPrepare)
  from search_path_restored_on_return [OF g r] g r show ?thesis
    by simp
qed

text \<open>
  C7. Inside an explain request (the active portal's command tag is \<open>CMDTAG_EXPLAIN\<close>),
  the text handed to the connection adapter, prepared by the engine and written to the
  debug log is the deparsed text behind the prefix \<open>EXPLAIN ANALYZE\<close> when
  \<open>duckdb_explain_analyze\<close> is set and behind \<open>EXPLAIN\<close> when it is not. The deparsed
  text itself is the same for both values of the flag, which is read from the state of
  the call.
\<close>

theorem explain_prefix_follows_toggle:
  assumes valid: "query < length (heap s)"
    and portal: "ActivePortal s = Some portal"
    and tag: "commandTag portal = CMDTAG_EXPLAIN"
    and dep: "pgduckdb_pg_get_querydef env (heap s ! query) False [] = Inr deparsed"
  shows "\<exists>rtables root vars.
           snd (DuckdbPrepare env query bp (s\<lparr>duckdb_explain_analyze := analyze\<rparr>))
             = Inr (Prepare env
                      (DuckdbCreateConnection env rtables root vars
                         ((if analyze then ''EXPLAIN ANALYZE '' else ''EXPLAIN '') @ deparsed))
                      ((if analyze then ''EXPLAIN ANALYZE '' else ''EXPLAIN '') @ deparsed),
                    DuckdbCreateConnection env rtables root vars
                      ((if analyze then ''EXPLAIN ANALYZE '' else ''EXPLAIN '') @ deparsed))
           \<and> server_log (fst (DuckdbPrepare env query bp (s\<lparr>duckdb_explain_analyze := analyze\<rparr>)))
               = server_log s @
                   [(DEBUG2, ''(PGDuckDB/DuckdbPrepare) Preparing: ''
                             @ (if analyze then ''EXPLAIN ANALYZE '' else ''EXPLAIN '') @ deparsed)]"
proof -
  let ?s = "s\<lparr>duckdb_explain_analyze := analyze\<rparr>"
  have valid': "query < length (heap ?s)"
    using valid by simp
  have dep': "pgduckdb_pg_get_querydef env (heap ?s ! query) False [] = Inr deparsed"
    using dep by simp
  have wrap: "explain_wrap ?s deparsed
                = (if analyze then ''EXPLAIN ANALYZE '' else ''EXPLAIN '') @ deparsed"
    using portal tag by (rule explain_wrap_toggle)
  show ?thesis
    unfolding DuckdbPrepare_return [OF valid' dep'] wrap
    by (intro exI conjI) (simp_all del: append.simps)
qed

theorem explain_prefix_follows_toggle_witness:
  "snd (DuckdbPrepare demo_env 0 None (demo_explain_state\<lparr>duckdb_explain_analyze := True\<rparr>))
     = Inr (demo_columns,
            ([ExprNode 100], 7, [ExprNode 1, ExprNode 2, ExprNode 3],
             ''EXPLAIN ANALYZE SELECT a, b FROM public.t''))
   \<and> server_log (fst (DuckdbPrepare demo_env 0 None (demo_explain_state\<lparr>duckdb_explain_analyze := True\<rparr>)))
       = [(DEBUG2, ''(PGDuckDB/DuckdbPrepare) Preparing: EXPLAIN ANALYZE SELECT a, b FROM public.t'')]
   \<and> server_log (fst (DuckdbPrepare demo_env 0 None (demo_explain_state\<lparr>duckdb_explain_analyze := False\<rparr>)))
       = [(DEBUG2, ''(PGDuckDB/DuckdbPrepare) Preparing: EXPLAIN SELECT a, b FROM public.t'')]"
proof -
  have valid: "0 < length (heap demo_explain_state)"
    by (simp add: demo_explain_state_def demo_state_def)
  have portal: "ActivePortal demo_explain_state = Some \<lparr>commandTag = CMDTAG_EXPLAIN\<rparr>"
    by (simp add: demo_explain_state_def)
  have tag: "commandTag \<lparr>commandTag = CMDTAG_EXPLAIN\<rparr> = CMDTAG_EXPLAIN"
    by simp
  have dep: "pgduckdb_pg_get_querydef demo_env (heap demo_explain_state ! 0) False []
               = Inr ''SELECT a, b FROM public.t''"
    by (simp add: demo_env_def demo_explain_state_def demo_state_def demo_query_def)
  have empty: "server_log demo_explain_state = []"
    by (simp add: demo_explain_state_def demo_state_def)
  note run = explain_prefix_follows_toggle [OF valid portal tag dep, of None]
  from run [of True] have t: "server_log (fst (DuckdbPrepare demo_env 0 None
        (demo_explain_state\<lparr>duckdb_explain_analyze := True\<rparr>)))
       = [(DEBUG2, ''(PGDuckDB/DuckdbPrepare) Preparing: EXPLAIN ANALYZE SELECT a, b FROM public.t'')]"
    by (simp add: empty)
  from run [of False] have f: "server_log (fst (DuckdbPrepare demo_env 0 None
        (demo_explain_state\<lparr>duckdb_explain_analyze := False\<rparr>)))
       = [(DEBUG2, ''(PGDuckDB/DuckdbPrepare) Preparing: EXPLAIN SELECT a, b FROM public.t'')]"
    by (simp add: empty)
  have valid': "0 < length (heap (demo_explain_state\<lparr>duckdb_explain_analyze := True\<rparr>))"
    using valid by simp
  have dep': "pgduckdb_pg_get_querydef demo_env
                (heap (demo_explain_state\<lparr>duckdb_explain_analyze := True\<rparr>) ! 0) False []
               = Inr ''SELECT a, b FROM public.t''"
    using dep by simp
  have r: "snd (DuckdbPrepare demo_env 0 None (demo_explain_state\<lparr>duckdb_explain_analyze := True\<rparr>))
     = Inr (demo_columns,
            ([ExprNode 100], 7, [ExprNode 1, ExprNode 2, ExprNode 3],
             ''EXPLAIN ANALYZE SELECT a, b FROM public.t''))"
    unfolding DuckdbPrepare_return [OF valid' dep']
    by (simp add: demo_env_def demo_explain_state_def demo_state_def demo_query_def
        explain_wrap_def node_of_list_def)
  from r t f show ?thesis by simp
qed

text \<open>
  C8. The variable list handed to \<open>DuckdbCreateConnection\<close> is the list
  \<open>pull_var_clause\<close> extracts from the target list followed by the list it extracts from
  the qualifiers of the join tree, both with the three \<open>PVC_RECURSE\<close> flags (aggregates,
  window functions, placeholders) and no other flag. The connection is the one returned
  next to the prepared statement; since \<open>DuckdbCreateConnection\<close> is arbitrary, its
  variable argument is exactly this list. The lists are extracted from the copy before
  planning. Nothing is said here about the range table, the planner context or the text
  the connection is opened with (\<open>DuckdbPrepare_return\<close> has them).
\<close>

theorem adapter_receives_pulled_vars:
  assumes valid: "query < length (heap s)"
    and dep: "pgduckdb_pg_get_querydef env (heap s ! query) False [] = Inr deparsed"
  shows "\<exists>rtables root query_string.
           snd (DuckdbPrepare env query bp s)
             = Inr (Prepare env
                      (DuckdbCreateConnection env rtables root
                         (pull_var_clause env (node_of_list (targetList (heap s ! query)))
                              (PVC_RECURSE_AGGREGATES OR PVC_RECURSE_WINDOWFUNCS
                                 OR PVC_RECURSE_PLACEHOLDERS)
                            @ pull_var_clause env (quals (jointree (heap s ! query)))
                                (PVC_RECURSE_AGGREGATES OR PVC_RECURSE_WINDOWFUNCS
                                   OR PVC_RECURSE_PLACEHOLDERS))
                         query_string)
                      query_string,
                    DuckdbCreateConnection env rtables root
                      (pull_var_clause env (node_of_list (targetList (heap s ! query)))
                           (PVC_RECURSE_AGGREGATES OR PVC_RECURSE_WINDOWFUNCS
                              OR PVC_RECURSE_PLACEHOLDERS)
                         @ pull_var_clause env (quals (jointree (heap s ! query)))
                             (PVC_RECURSE_AGGREGATES OR PVC_RECURSE_WINDOWFUNCS
                                OR PVC_RECURSE_PLACEHOLDERS))
                      query_string)"
  unfolding DuckdbPrepare_return [OF valid dep] snd_conv
  by (intro exI) (rule refl)

theorem adapter_receives_pulled_vars_witness:
  "0 < length (heap demo_state)
   \<and> pgduckdb_pg_get_querydef demo_env (heap demo_state ! 0) False [] = Inr ''SELECT a, b FROM public.t''
   \<and> pull_var_clause demo_env (node_of_list (targetList (heap demo_state ! 0)))
          (PVC_RECURSE_AGGREGATES OR PVC_RECURSE_WINDOWFUNCS OR PVC_RECURSE_PLACEHOLDERS)
        @ pull_var_clause demo_env (quals (jointree (heap demo_state ! 0)))
            (PVC_RECURSE_AGGREGATES OR PVC_RECURSE_WINDOWFUNCS OR PVC_RECURSE_PLACEHOLDERS)
       = [ExprNode 1, ExprNode 2, ExprNode 3]
   \<and> (\<exists>rtables root query_string.
         snd (DuckdbPrepare demo_env 0 None demo_state)
           = Inr (demo_columns, (rtables, root, [ExprNode 1, ExprNode 2, ExprNode 3], query_string)))"
proof -
  have valid: "0 < length (heap demo_state)"
    by (simp add: demo_state_def)
  have dep: "pgduckdb_pg_get_querydef demo_env (heap demo_state ! 0) False []
                = Inr ''SELECT a, b FROM public.t''"
    by (simp add: demo_env_def demo_state_def demo_query_def)
  have vars: "pull_var_clause demo_env (node_of_list (targetList (heap demo_state ! 0)))
          (PVC_RECURSE_AGGREGATES OR PVC_RECURSE_WINDOWFUNCS OR PVC_RECURSE_PLACEHOLDERS)
        @ pull_var_clause demo_env (quals (jointree (heap demo_state ! 0)))
            (PVC_RECURSE_AGGREGATES OR PVC_RECURSE_WINDOWFUNCS OR PVC_RECURSE_PLACEHOLDERS)
       = [ExprNode 1, ExprNode 2, ExprNode 3]"
    by (simp add: demo_env_def demo_state_def demo_query_def node_of_list_def)
  from adapter_receives_pulled_vars [OF valid dep, of None]
  have "\<exists>rtables root query_string.
         snd (DuckdbPrepare demo_env 0 None demo_state)
           = Inr (demo_columns, (rtables, root, [ExprNode 1, ExprNode 2, ExprNode 3], query_string))"
    unfolding vars by (simp add: demo_env_def)
  with valid dep vars show ?thesis by simp
qed

section \<open>Properties of \<open>CreatePlan\<close>\<close>

text \<open>
  C1. When the prepared statement carries no error and every result type passes both
  checks (a valid host type identifier with a catalog entry), \<open>CreatePlan\<close> returns a
  node whose target list has one entry per result column, in the same order: entry \<open>i\<close>
  has the name of result column \<open>i\<close>, and the host type the mapper gives for its type.
  Every result column has a name (the vector of names is at least as long as the vector
  of types), and the names are C strings: none holds a NUL byte, at which \<open>c_str\<close> would
  cut it short.
\<close>

theorem schema_follows_handle:
  assumes prep: "DuckdbPrepare env query bp s = (s1, Inr (prepared_query, conn))"
    and ok: "\<not> HasError prepared_query"
    and mapped: "\<forall>column\<in>set (GetTypes prepared_query). type_mapped env column"
    and names: "length (GetTypes prepared_query) \<le> length (GetNames prepared_query)"
    and nul: "\<forall>name\<in>set (GetNames prepared_query). CHR 0x00 \<notin> set name"
  shows "\<exists>node. CreatePlan env query bp s = (s1, Inr (Some node))
           \<and> length (custom_scan_tlist node) = length (GetTypes prepared_query)
           \<and> (\<forall>i<length (GetTypes prepared_query).
                 resname (custom_scan_tlist node ! i) = GetNames prepared_query ! i
                 \<and> vartype (expr (custom_scan_tlist node ! i))
                     = GetPostgresDuckDBType env (GetTypes prepared_query ! i))"
proof -
  from CreatePlan_schema [OF prep ok mapped names] obtain node
    where cp: "CreatePlan env query bp s = (s1, Inr (Some node))"
      and len: "length (custom_scan_tlist node) = length (GetTypes prepared_query)"
      and cols: "\<forall>i<length (GetTypes prepared_query).
                   resname (custom_scan_tlist node ! i) = c_str (GetNames prepared_query ! i)
                   \<and> vartype (expr (custom_scan_tlist node ! i))
                       = GetPostgresDuckDBType env (GetTypes prepared_query ! i)"
    by blast
  have "c_str (GetNames prepared_query ! i) = GetNames prepared_query ! i"
    if "i < length (GetTypes prepared_query)" for i
  proof -
    from that names have "GetNames prepared_query ! i \<in> set (GetNames prepared_query)"
      by simp
    with nul show ?thesis
      by (simp add: c_str_id)
  qed
  with cols have "\<forall>i<length (GetTypes prepared_query).
                   resname (custom_scan_tlist node ! i) = GetNames prepared_query ! i
                   \<and> vartype (expr (custom_scan_tlist node ! i))
                       = GetPostgresDuckDBType env (GetTypes prepared_query ! i)"
    by simp
  with cp len show ?thesis by blast
qed

theorem schema_follows_handle_witness:
  "DuckdbPrepare demo_env 0 None demo_state = (demo_prepared_state, Inr (demo_columns, demo_conn))
   \<and> \<not> HasError demo_columns
   \<and> GetTypes demo_columns = [''INTEGER'', ''VARCHAR'']
   \<and> type_mapped demo_env ''INTEGER''
   \<and> type_mapped demo_env ''VARCHAR''
   \<and> length (GetTypes demo_columns) \<le> length (GetNames demo_columns)
   \<and> GetNames demo_columns = [''a'', ''b'']
   \<and> CHR 0x00 \<notin> set ''a''
   \<and> CHR 0x00 \<notin> set ''b''
   \<and> (\<exists>node. CreatePlan demo_env 0 None demo_state = (demo_prepared_state, Inr (Some node))
         \<and> length (custom_scan_tlist node) = 2
         \<and> resname (custom_scan_tlist node ! 0) = ''a''
         \<and> vartype (expr (custom_scan_tlist node ! 0)) = 23
         \<and> resname (custom_scan_tlist node ! 1) = ''b''
         \<and> vartype (expr (custom_scan_tlist node ! 1)) = 25)"
proof -
  have ok: "\<not> HasError demo_columns"
    by (simp add: demo_columns_def)
  have mapped: "\<forall>column\<in>set (GetTypes demo_columns). type_mapped demo_env column"
    using demo_mapped [of "Prepare demo_env"] by (simp add: demo_columns_def)
  have names: "length (GetTypes demo_columns) \<le> length (GetNames demo_columns)"
    by (simp add: demo_columns_def)
  have nms: "GetNames demo_columns = [''a'', ''b'']"
    by (simp add: demo_columns_def)
  have nul: "\<forall>name\<in>set (GetNames demo_columns). CHR 0x00 \<notin> set name"
    by (simp add: nms)
  from schema_follows_handle [OF demo_DuckdbPrepare ok mapped names nul]
  obtain node where cp: "CreatePlan demo_env 0 None demo_state = (demo_prepared_state, Inr (Some node))"
    and len: "length (custom_scan_tlist node) = length (GetTypes demo_columns)"
    and cols: "\<forall>i<length (GetTypes demo_columns).
                 resname (custom_scan_tlist node ! i) = GetNames demo_columns ! i
                 \<and> vartype (expr (custom_scan_tlist node ! i))
                     = GetPostgresDuckDBType demo_env (GetTypes demo_columns ! i)"
    by blast
  from cols have c0: "resname (custom_scan_tlist node ! 0) = ''a''
                      \<and> vartype (expr (custom_scan_tlist node ! 0)) = 23"
    by (simp add: demo_columns_def demo_env_def)
  from cols have c1: "resname (custom_scan_tlist node ! 1) = ''b''
                      \<and> vartype (expr (custom_scan_tlist node ! 1)) = 25"
    by (simp add: demo_columns_def demo_env_def)
  from len have "length (custom_scan_tlist node) = 2"
    by (simp add: demo_columns_def)
  moreover have "GetTypes demo_columns = [''INTEGER'', ''VARCHAR'']"
    by (simp add: demo_columns_def)
  moreover have "type_mapped demo_env ''INTEGER''" "type_mapped demo_env ''VARCHAR''"
    using demo_mapped [of "Prepare demo_env"] by simp_all
  moreover have "CHR 0x00 \<notin> set ''a''" "CHR 0x00 \<notin> set ''b''"
    by simp_all
  ultimately show ?thesis
    using cp c0 c1 demo_DuckdbPrepare ok names nms by blast
qed

text \<open>
  C2. When the prepared statement carries an error, \<open>CreatePlan\<close> appends one warning
  with the engine's error text to the log and returns null, and \<open>DuckdbPlanNode\<close>
  returns null in the same state: no planned statement is built.
\<close>

theorem prepare_error_gives_null:
  assumes "DuckdbPrepare env query bp s = (s1, Inr (prepared_query, conn))"
    and "HasError prepared_query"
  shows "CreatePlan env query bp s =
           (elog WARNING (''(PGDuckDB/CreatePlan) Prepared query returned an error: ''
                            @ [CHR 0x27] @ GetError prepared_query) s1, Inr None)
         \<and> DuckdbPlanNode env query cursor_options bp s =
           (elog WARNING (''(PGDuckDB/CreatePlan) Prepared query returned an error: ''
                            @ [CHR 0x27] @ GetError prepared_query) s1, Inr None)"
  using CreatePlan_prepare_error [OF assms]
  by (simp add: DuckdbPlanNode_null)

theorem prepare_error_gives_null_witness:
  "DuckdbPrepare demo_env_rejecting 0 None demo_state
     = (demo_prepared_state,
        Inr (\<lparr>HasError = True, GetError = ''Parser Error: syntax error'',
               GetTypes = [], GetNames = []\<rparr>, demo_conn))
   \<and> CreatePlan demo_env_rejecting 0 None demo_state
     = (demo_prepared_state\<lparr>server_log :=
          [(DEBUG2, ''(PGDuckDB/DuckdbPrepare) Preparing: SELECT a, b FROM public.t''),
           (WARNING, ''(PGDuckDB/CreatePlan) Prepared query returned an error: ''
                       @ [CHR 0x27] @ ''Parser Error: syntax error'')]\<rparr>, Inr None)
   \<and> DuckdbPlanNode demo_env_rejecting 0 0 None demo_state
     = (demo_prepared_state\<lparr>server_log :=
          [(DEBUG2, ''(PGDuckDB/DuckdbPrepare) Preparing: SELECT a, b FROM public.t''),
           (WARNING, ''(PGDuckDB/CreatePlan) Prepared query returned an error: ''
                       @ [CHR 0x27] @ ''Parser Error: syntax error'')]\<rparr>, Inr None)"
proof -
  have prep: "DuckdbPrepare demo_env_rejecting 0 None demo_state
     = (demo_prepared_state,
        Inr (\<lparr>HasError = True, GetError = ''Parser Error: syntax error'',
               GetTypes = [], GetNames = []\<rparr>, demo_conn))"
    unfolding demo_env_rejecting_def by (rule demo_DuckdbPrepare_engine)
  have err: "HasError \<lparr>HasError = True, GetError = ''Parser Error: syntax error'',
               GetTypes = ([] :: string list), GetNames = []\<rparr>"
    by simp
  have logged: "elog WARNING (''(PGDuckDB/CreatePlan) Prepared query returned an error: ''
                   @ [CHR 0x27] @ GetError \<lparr>HasError = True, GetError = ''Parser Error: syntax error'',
               GetTypes = ([] :: string list), GetNames = []\<rparr>) demo_prepared_state
     = demo_prepared_state\<lparr>server_log :=
          [(DEBUG2, ''(PGDuckDB/DuckdbPrepare) Preparing: SELECT a, b FROM public.t''),
           (WARNING, ''(PGDuckDB/CreatePlan) Prepared query returned an error: ''
                       @ [CHR 0x27] @ ''Parser Error: syntax error'')]\<rparr>"
    by (simp add: elog_def demo_prepared_state_def)
  from prepare_error_gives_null [OF prep err, of 0] prep show ?thesis
    unfolding logged by simp
qed

text \<open>
  C3, at a result type the mapper has no counterpart for. \<open>CreatePlan\<close> returns null
  and builds no statement, but the warning does not say which type was at fault: it
  prints the identifier that has just failed \<open>OidIsValid\<close>, so it reads \<open>type 0\<close> for
  \<open>UNION\<close> and for \<open>MAP\<close> alike, and the two runs end in the same state with the same
  log. The branch for a missing catalog entry prints the identifier it looked up
  (\<open>demo_CreatePlan_hugeint\<close>).
\<close>

theorem unmapped_type_logged_as_zero:
  "GetPostgresDuckDBType demo_env_union ''UNION'' = InvalidOid
   \<and> GetPostgresDuckDBType demo_env_map ''MAP'' = InvalidOid
   \<and> CreatePlan demo_env_union 0 None demo_state
       = (demo_prepared_state\<lparr>server_log :=
            [(DEBUG2, ''(PGDuckDB/DuckdbPrepare) Preparing: SELECT a, b FROM public.t''),
             (WARNING, ''(PGDuckDB/CreatePlan) Cache lookup failed for type 0'')]\<rparr>, Inr None)
   \<and> CreatePlan demo_env_map 0 None demo_state = CreatePlan demo_env_union 0 None demo_state
   \<and> DuckdbPlanNode demo_env_union 0 0 None demo_state
       = (demo_prepared_state\<lparr>server_log :=
            [(DEBUG2, ''(PGDuckDB/DuckdbPrepare) Preparing: SELECT a, b FROM public.t''),
             (WARNING, ''(PGDuckDB/CreatePlan) Cache lookup failed for type 0'')]\<rparr>, Inr None)"
proof -
  have u: "CreatePlan demo_env_union 0 None demo_state
       = (demo_prepared_state\<lparr>server_log :=
            [(DEBUG2, ''(PGDuckDB/DuckdbPrepare) Preparing: SELECT a, b FROM public.t''),
             (WARNING, ''(PGDuckDB/CreatePlan) Cache lookup failed for type 0'')]\<rparr>, Inr None)"
    unfolding demo_env_union_def
    by (simp add: CreatePlan_def demo_DuckdbPrepare_engine demo_loop_unmapped)
  have m: "CreatePlan demo_env_map 0 None demo_state
       = (demo_prepared_state\<lparr>server_log :=
            [(DEBUG2, ''(PGDuckDB/DuckdbPrepare) Preparing: SELECT a, b FROM public.t''),
             (WARNING, ''(PGDuckDB/CreatePlan) Cache lookup failed for type 0'')]\<rparr>, Inr None)"
    unfolding demo_env_map_def
    by (simp add: CreatePlan_def demo_DuckdbPrepare_engine demo_loop_unmapped)
  have ids: "GetPostgresDuckDBType demo_env_union ''UNION'' = InvalidOid"
    "GetPostgresDuckDBType demo_env_map ''MAP'' = InvalidOid"
    by (simp_all add: demo_env_union_def demo_env_map_def demo_env_def)
  from u m ids DuckdbPlanNode_null [OF u] show ?thesis
    by simp
qed

section \<open>Properties of \<open>DuckdbPlanNode\<close>\<close>

text \<open>
  C6. When \<open>CreatePlan\<close> returns a node, \<open>DuckdbPlanNode\<close> returns a planned statement
  with that node as its plan tree; command type, modifying-CTE flag and tag flag are
  those of the caller's tree, the returning flag says whether its returning list is
  non-empty, and every auxiliary list is empty.
\<close>

theorem planned_statement_flags_and_lists:
  assumes "CreatePlan env parse bp s = (s1, Inr (Some duckdb_plan))"
  shows "\<exists>result. DuckdbPlanNode env parse cursor_options bp s = (s1, Inr (Some result))
           \<and> planTree result = duckdb_plan
           \<and> PlannedStmt.commandType result = Query.commandType (heap s ! parse)
           \<and> hasReturning result = (returningList (heap s ! parse) \<noteq> [])
           \<and> PlannedStmt.hasModifyingCTE result = Query.hasModifyingCTE (heap s ! parse)
           \<and> PlannedStmt.canSetTag result = Query.canSetTag (heap s ! parse)
           \<and> PlannedStmt.subplans result = []
           \<and> rowMarks result = []
           \<and> PlannedStmt.resultRelations result = []
           \<and> PlannedStmt.relationOids result = []
           \<and> PlannedStmt.rtable result = []
           \<and> PlannedStmt.rewindPlanIDs result = {}
           \<and> PlannedStmt.invalItems result = []
           \<and> PlannedStmt.paramExecTypes result = []
           \<and> permInfos result = []
           \<and> PlannedStmt.appendRelations result = []"
  by (simp add: DuckdbPlanNode_return [OF assms])

theorem planned_statement_flags_and_lists_witness:
  "CreatePlan demo_env 0 None demo_state = (demo_prepared_state, Inr (Some demo_plan))
   \<and> (\<exists>result. DuckdbPlanNode demo_env 0 0 None demo_state = (demo_prepared_state, Inr (Some result))
         \<and> planTree result = demo_plan
         \<and> PlannedStmt.commandType result = CMD_SELECT
         \<and> \<not> hasReturning result
         \<and> \<not> PlannedStmt.hasModifyingCTE result
         \<and> PlannedStmt.canSetTag result
         \<and> PlannedStmt.subplans result = []
         \<and> rowMarks result = []
         \<and> PlannedStmt.resultRelations result = []
         \<and> PlannedStmt.relationOids result = []
         \<and> PlannedStmt.rtable result = []
         \<and> PlannedStmt.rewindPlanIDs result = {}
         \<and> PlannedStmt.invalItems result = []
         \<and> PlannedStmt.paramExecTypes result = []
         \<and> permInfos result = []
         \<and> PlannedStmt.appendRelations result = [])"
proof -
  have q: "heap demo_state ! 0 = demo_query"
    by (simp add: demo_state_def)
  from planned_statement_flags_and_lists [OF demo_CreatePlan, of 0] demo_CreatePlan
  show ?thesis
    unfolding q by (simp add: demo_query_def)
qed

text \<open>
  C10. The same planned statement carries the query identifier, utility statement,
  statement location and statement length of the caller's tree; its transient-plan,
  depends-on-role and parallel-mode flags are false; its returning flag is true exactly
  when the returning list of the tree is non-empty.
\<close>

theorem planned_statement_other_fields:
  assumes "CreatePlan env parse bp s = (s1, Inr (Some duckdb_plan))"
  shows "\<exists>result. DuckdbPlanNode env parse cursor_options bp s = (s1, Inr (Some result))
           \<and> PlannedStmt.queryId result = Query.queryId (heap s ! parse)
           \<and> PlannedStmt.utilityStmt result = Query.utilityStmt (heap s ! parse)
           \<and> PlannedStmt.stmt_location result = Query.stmt_location (heap s ! parse)
           \<and> PlannedStmt.stmt_len result = Query.stmt_len (heap s ! parse)
           \<and> PlannedStmt.transientPlan result = False
           \<and> PlannedStmt.dependsOnRole result = False
           \<and> parallelModeNeeded result = False
           \<and> hasReturning result = (returningList (heap s ! parse) \<noteq> [])"
  by (simp add: DuckdbPlanNode_return [OF assms])

theorem planned_statement_other_fields_witness:
  "CreatePlan demo_env 0 None demo_state = (demo_prepared_state, Inr (Some demo_plan))
   \<and> (\<exists>result. DuckdbPlanNode demo_env 0 0 None demo_state = (demo_prepared_state, Inr (Some result))
         \<and> PlannedStmt.queryId result = 42
         \<and> PlannedStmt.utilityStmt result = NullNode
         \<and> PlannedStmt.stmt_location result = 0
         \<and> PlannedStmt.stmt_len result = 27
         \<and> \<not> PlannedStmt.transientPlan result
         \<and> \<not> PlannedStmt.dependsOnRole result
         \<and> \<not> parallelModeNeeded result
         \<and> \<not> hasReturning result)"
proof -
  have q: "heap demo_state ! 0 = demo_query"
    by (simp add: demo_state_def)
  from planned_statement_other_fields [OF demo_CreatePlan, of 0] demo_CreatePlan
  show ?thesis
    unfolding q by (simp add: demo_query_def)
qed


text \<open>
  C9. \<open>DuckdbPlanNode\<close> never reads \<open>cursor_options\<close>: two calls that differ in it
  alone give the same result and the same state.
\<close>

theorem cursor_options_ignored:
  "DuckdbPlanNode env parse cursor_options bp s = DuckdbPlanNode env parse cursor_options' bp s"
  by (simp add: DuckdbPlanNode_def)

end
